(* ===== verification/Prelude.thy ===== *)
theory Prelude
  imports Complex_Main "HOL-Library.AList"
begin

section \<open>Shared vocabulary of the M/M/1 simulation model\<close>

text \<open>
  The types and generic facts every component theory uses:
  \<^item> \<open>py_error\<close>, the Python exceptions the simulator can raise, and the result type
    \<open>'a result = py_error + 'a\<close> with its bind \<open>py_bind\<close> (an exception propagates),
    and \<open>py_div\<close>, float division raising on a zero divisor;
  \<^item> \<open>etime\<close>, a time that may be \<open>float('inf')\<close>, ordered as Python orders floats
    against infinity (an instance of \<open>linorder\<close>);
  \<^item> \<open>py_index\<close>, a list subscript raising \<open>IndexError\<close> out of range, and the
    collection \<open>result_iff\<close> of the characterisations \<open>m = Inr x \<longleftrightarrow> ...\<close>;
  \<^item> two list lemmas on \<open>butlast\<close> and \<open>last\<close> the trace proofs share;
  \<^item> the collections \<open>ledger_simps\<close> (rewrite rules for the population ledger, filled
    by \<open>Trace_Recorder\<close> and \<open>Statistics\<close>) and \<open>step_defs\<close> (the definitions of
    the event handlers, filled by \<open>Event_Clock\<close>, unfolded together to run a model).
\<close>

named_theorems ledger_simps "rewrite rules for the population ledger"
named_theorems step_defs "definitions of the event handlers, unfolded together"
named_theorems result_iff "characterisations of a successful result, m = Inr x"

subsection \<open>Exceptions as values\<close>

text \<open>
  \<open>ZeroDivisionError\<close>: Python's \<open>1.0/0\<close> or \<open>x/0.0\<close>; \<open>ValueError\<close>: NumPy's
  \<open>exponential\<close> refuses a negative \<open>scale\<close>; \<open>SamplesExhausted\<close>: the finite prefix of
  the generator's stream given to the model ran out (the real generator never does);
  \<open>IndexError\<close>: a list subscript \<open>xs[i]\<close> out of range.
\<close>

datatype py_error = ZeroDivisionError | ValueError | IndexError | SamplesExhausted

type_synonym 'a result = "py_error + 'a"

fun py_bind :: "'a result \<Rightarrow> ('a \<Rightarrow> 'b result) \<Rightarrow> 'b result" where
  "py_bind (Inl e) f = Inl e"
| "py_bind (Inr a) f = f a"

lemma py_bind_cong [fundef_cong]:
  "m = m' \<Longrightarrow> (\<And>a. m' = Inr a \<Longrightarrow> f a = g a) \<Longrightarrow> py_bind m f = py_bind m' g"
  by (cases m) auto

lemma py_bind_eq_Inr [simp, result_iff]:
  "py_bind m f = Inr b \<longleftrightarrow> (\<exists>a. m = Inr a \<and> f a = Inr b)"
  by (cases m) auto

lemma py_bind_eq_Inl:
  "py_bind m f = Inl e \<longleftrightarrow> m = Inl e \<or> (\<exists>a. m = Inr a \<and> f a = Inl e)"
  by (cases m) auto

text \<open>Python's float division \<open>a / b\<close> raises \<open>ZeroDivisionError\<close> for \<open>b = 0\<close>.\<close>

definition py_div :: "real \<Rightarrow> real \<Rightarrow> real result" where
  "py_div a b = (if b = 0 then Inl ZeroDivisionError else Inr (a / b))"

lemma py_div_Inr [simp, result_iff]: "py_div a b = Inr q \<longleftrightarrow> b \<noteq> 0 \<and> q = a / b"
  by (auto simp: py_div_def)

text \<open>Python's subscript \<open>xs[i]\<close> for \<open>i >= 0\<close> raises \<open>IndexError\<close> past the end.\<close>

definition py_index :: "'a list \<Rightarrow> nat \<Rightarrow> 'a result" where
  "py_index xs i = (if i < length xs then Inr (xs ! i) else Inl IndexError)"

lemma py_index_Inr [simp, result_iff]: "py_index xs i = Inr x \<longleftrightarrow> i < length xs \<and> x = xs ! i"
  by (auto simp: py_index_def)

subsection \<open>Lists\<close>

lemma in_set_butlast_or_last:
  "x \<in> set xs \<Longrightarrow> x \<in> set (butlast xs) \<or> x = last xs"
  by (cases xs rule: rev_cases) auto

lemma sorted_wrt_butlast_last:
  "sorted_wrt R xs \<Longrightarrow> x \<in> set (butlast xs) \<Longrightarrow> R x (last xs)"
  by (cases xs rule: rev_cases) (auto simp: sorted_wrt_append)

subsection \<open>Times that may be infinite\<close>

text \<open>
  \<open>next_departure_time\<close> is \<open>float('inf')\<close> while the server is idle. Only comparisons
  are done on it, so it is a real or \<open>Infinity\<close>, ordered with \<open>Infinity\<close> on top.
\<close>

datatype etime = Fin real | Infinity

instantiation etime :: linorder
begin

fun less_eq_etime :: "etime \<Rightarrow> etime \<Rightarrow> bool" where
  "less_eq_etime (Fin a) (Fin b) = (a \<le> b)"
| "less_eq_etime _ Infinity = True"
| "less_eq_etime Infinity (Fin _) = False"

fun less_etime :: "etime \<Rightarrow> etime \<Rightarrow> bool" where
  "less_etime (Fin a) (Fin b) = (a < b)"
| "less_etime (Fin _) Infinity = True"
| "less_etime Infinity _ = False"

instance
proof
  fix x y z :: etime
  show "(x < y) = (x \<le> y \<and> \<not> y \<le> x)"
    by (cases x; cases y) auto
  show "x \<le> x"
    by (cases x) auto
  show "x \<le> y \<Longrightarrow> y \<le> z \<Longrightarrow> x \<le> z"
    by (cases x; cases y; cases z) auto
  show "x \<le> y \<Longrightarrow> y \<le> x \<Longrightarrow> x = y"
    by (cases x; cases y) auto
  show "x \<le> y \<or> y \<le> x"
    by (cases x; cases y) auto
qed

end

lemma Infinity_le_iff [simp]: "Infinity \<le> d \<longleftrightarrow> d = Infinity"
  by (cases d) auto

end
