(* ===== verification/Sample_Source.thy ===== *)
theory Sample_Source
  imports Prelude
begin

section \<open>Sample source: \<open>np.random.exponential(scale=1.0/rate)\<close>\<close>

text \<open>
  The simulator draws every duration with \<open>np.random.exponential(scale=1.0/rate)\<close>
  (\<open>src/mm1_queue_simulation.py\<close>, lines 24, 38, 44 and 68), all from the one global
  generator seeded at line 7. NumPy computes such a draw as \<open>scale\<close> times the next
  standard exponential variate of its stream. The model therefore takes the seeded stream
  as a list of standard variates (\<open>rng\<close>), consumed from the front, one per draw, in the
  order the simulator makes its calls; a run that needs more variates than the list holds
  ends in \<open>SamplesExhausted\<close>. The argument \<open>1.0/rate\<close> raises \<open>ZeroDivisionError\<close>
  for a zero rate, and NumPy raises \<open>ValueError\<close> for a negative scale.
\<close>

type_synonym rng = "real list"

definition exponential_draw :: "real \<Rightarrow> rng \<Rightarrow> (real \<times> rng) result" where
  "exponential_draw rate g =
     (if rate = 0 then Inl ZeroDivisionError
      else (let scale = 1 / rate in
            if scale < 0 then Inl ValueError
            else (case g of [] \<Rightarrow> Inl SamplesExhausted
                  | u # us \<Rightarrow> Inr (scale * u, us))))"

text \<open>The stream of a real generator: every standard exponential variate is non-negative.\<close>

definition valid_rng :: "rng \<Rightarrow> bool" where
  "valid_rng g \<longleftrightarrow> list_all (\<lambda>u. 0 \<le> u) g"

lemma valid_rng_simps [simp]:
  "valid_rng []"
  "valid_rng (u # us) \<longleftrightarrow> 0 \<le> u \<and> valid_rng us"
  by (simp_all add: valid_rng_def)

lemma exponential_draw_Inr:
  "exponential_draw rate g = Inr (d, g') \<longleftrightarrow>
     0 < rate \<and> (\<exists>u. g = u # g' \<and> d = u / rate)"
proof -
  have "1 / rate < 0 \<longleftrightarrow> rate < 0" by simp
  then show ?thesis
    by (cases g) (auto simp: exponential_draw_def Let_def)
qed

lemma exponential_draw_length:
  "exponential_draw rate g = Inr (d, g') \<Longrightarrow> length g = Suc (length g')"
  by (auto simp: exponential_draw_Inr)

lemma exponential_draw_errors:
  "rate = 0 \<Longrightarrow> exponential_draw rate g = Inl ZeroDivisionError"
  "rate < 0 \<Longrightarrow> exponential_draw rate g = Inl ValueError"
  "0 < rate \<Longrightarrow> exponential_draw rate [] = Inl SamplesExhausted"
  by (simp_all add: exponential_draw_def Let_def)

end
