(* ===== verification/Trace_Recorder.thy ===== *)
theory Trace_Recorder
  imports Prelude
begin

section \<open>Trace recorder: customer records and the population ledger\<close>

text \<open>
  Two records are kept by \<open>simulate_mm1_queue\<close>:
  \<^item> \<open>customer_stats\<close>, a list of triples \<open>(arrival_time, service_start_time,
    departure_time)\<close>, appended when a customer enters service (lines 46 and 70);
    the model's \<open>customer\<close> record names the three components;
  \<^item> \<open>state_time\<close>, the dict from population count to accumulated time (line 20),
    updated by \<open>state_time[n] = state_time.get(n, 0) + d\<close> (lines 33, 58, 78).
    A Python dict keeps its keys in insertion order, so it is an association list whose
    keys are distinct; \<open>AList.update\<close> replaces a present key in place and appends a
    new one at the end, as the dict does.
  The ledger lemmas: an update keeps the keys distinct, adds \<open>d\<close> to the total, and
  leaves every other entry alone.
\<close>

record customer =
  c_arrival :: real
  c_start :: real
  c_departure :: real

type_synonym ledger = "(int \<times> real) list"

definition ledger_get :: "ledger \<Rightarrow> int \<Rightarrow> real" where
  "ledger_get l n = (case map_of l n of None \<Rightarrow> 0 | Some t \<Rightarrow> t)"

definition ledger_add :: "ledger \<Rightarrow> int \<Rightarrow> real \<Rightarrow> ledger" where
  "ledger_add l n d = AList.update n (ledger_get l n + d) l"

definition ledger_total :: "ledger \<Rightarrow> real" where
  "ledger_total l = sum_list (map snd l)"

definition ledger_ok :: "ledger \<Rightarrow> bool" where
  "ledger_ok l \<longleftrightarrow> distinct (map fst l)"

lemma ledger_get_update [ledger_simps]:
  "ledger_get (AList.update n v l) m = (if m = n then v else ledger_get l m)"
  by (simp add: ledger_get_def update_conv)

lemma ledger_ok_add [ledger_simps]: "ledger_ok l \<Longrightarrow> ledger_ok (ledger_add l n d)"
  by (simp add: ledger_ok_def ledger_add_def distinct_update)

lemma sum_update_distinct:
  "distinct (map fst l) \<Longrightarrow>
   sum_list (map snd (AList.update n v l)) = sum_list (map snd l) - ledger_get l n + v"
proof (induction l)
  case Nil
  then show ?case by (simp add: ledger_get_def)
next
  case (Cons p l)
  show ?case
  proof (cases "fst p = n")
    case True
    with Cons.prems have "map_of l n = None"
      by (auto simp: map_of_eq_None_iff)
    with True show ?thesis
      by (cases p) (simp add: ledger_get_def)
  next
    case False
    with Cons show ?thesis
      by (cases p) (simp add: ledger_get_def)
  qed
qed

lemma ledger_total_add [ledger_simps]:
  "ledger_ok l \<Longrightarrow> ledger_total (ledger_add l n d) = ledger_total l + d"
  by (simp add: ledger_total_def ledger_add_def ledger_ok_def sum_update_distinct)

lemma ledger_get_add [ledger_simps]:
  "ledger_get (ledger_add l n d) m = (if m = n then ledger_get l m + d else ledger_get l m)"
  by (simp add: ledger_add_def ledger_get_update)

lemma ledger_keys_add [ledger_simps]:
  "fst ` set (ledger_add l n d) = insert n (fst ` set l)"
  by (simp add: ledger_add_def dom_update)

lemma set_update_subset: "set (AList.update n v l) \<subseteq> insert (n, v) (set l)"
  by (induction l) auto

lemma ledger_get_nonneg: "\<forall>x \<in> set l. 0 \<le> snd x \<Longrightarrow> 0 \<le> ledger_get l n"
  by (cases "map_of l n") (auto simp: ledger_get_def dest!: map_of_SomeD)

lemma ledger_add_nonneg:
  "x \<in> set (ledger_add l n d) \<Longrightarrow> \<forall>y \<in> set l. 0 \<le> snd y \<Longrightarrow> 0 \<le> d \<Longrightarrow> 0 \<le> snd x"
  using set_update_subset [of n "ledger_get l n + d" l] ledger_get_nonneg [of l n]
  by (auto simp: ledger_add_def)

lemma ledger_add_other:
  "x \<in> set (ledger_add l n d) \<Longrightarrow> fst x \<noteq> n \<Longrightarrow> x \<in> set l"
  using set_update_subset [of n "ledger_get l n + d" l] by (auto simp: ledger_add_def)

end
