(* ===== verification/Sim_State.thy ===== *)
theory Sim_State
  imports Sample_Source Trace_Recorder
begin

section \<open>The simulation context of \<open>simulate_mm1_queue\<close>\<close>

text \<open>
  \<open>simulate_mm1_queue\<close> (\<open>src/mm1_queue_simulation.py\<close>, lines 5--128) keeps its
  whole state in local variables; the record \<open>sim_state\<close> has one field per variable
  (lines 11--24), with the same name, and one more, \<open>rng\<close>, for the rest of the
  generator's stream (see \<open>Sample_Source\<close>). \<open>init_state\<close> is lines 10--24: the
  initial values and the first arrival drawn with rate \<open>arrival_rate\<close>.
  Counts stay Python \<open>int\<close>s (\<open>int\<close>); times are \<open>real\<close>s (the model does not
  round as floats do); \<open>next_departure_time\<close> may be \<open>Infinity\<close>.
\<close>

record sim_state =
  current_time :: real
  server_busy :: bool
  server_start_time :: real
  next_departure_time :: etime
  queue :: "real list"
  customer_stats :: "customer list"
  last_event_time :: real
  state_time :: ledger
  current_state :: int
  next_arrival_time :: real
  rng :: rng

definition init_state :: "real \<Rightarrow> rng \<Rightarrow> sim_state result" where
  "init_state arrival_rate g =
     py_bind (exponential_draw arrival_rate g) (\<lambda>(a, g').
       Inr \<lparr>current_time = 0, server_busy = False, server_start_time = 0,
            next_departure_time = Infinity, queue = [], customer_stats = [],
            last_event_time = 0, state_time = [(0, 0)], current_state = 0,
            next_arrival_time = a, rng = g'\<rparr>)"

lemma init_state_Inr:
  "init_state arrival_rate g = Inr s \<longleftrightarrow>
     (\<exists>a g'. exponential_draw arrival_rate g = Inr (a, g') \<and>
        s = \<lparr>current_time = 0, server_busy = False, server_start_time = 0,
             next_departure_time = Infinity, queue = [], customer_stats = [],
             last_event_time = 0, state_time = [(0, 0)], current_state = 0,
             next_arrival_time = a, rng = g'\<rparr>)"
  by (auto simp: init_state_def)

end
