(* ===== verification/Queueing_Discipline.thy ===== *)
theory Queueing_Discipline
  imports Sim_State
begin

section \<open>Queueing discipline: one FIFO line, one server\<close>

text \<open>
  The discipline is the two decision points of the event loop:
  \<^item> \<open>admit_customer\<close> (lines 40--49): an arriving customer finds the server idle and
    starts service at once (a service time is drawn, the departure is scheduled and the
    customer's record appended), or finds it busy and joins the back of \<open>queue\<close>;
  \<^item> \<open>release_server\<close> (lines 65--75): at a departure the customer at the front of
    \<open>queue\<close> (\<open>popleft\<close>) enters service, or, with an empty line, the server goes idle
    and no departure is pending.
  Both read \<open>current_time\<close>, which the event handler has already advanced.
\<close>

definition admit_customer :: "real \<Rightarrow> sim_state \<Rightarrow> sim_state result" where
  "admit_customer service_rate s =
     (if \<not> server_busy s then
        py_bind (exponential_draw service_rate (rng s)) (\<lambda>(service_time, g').
          (let t = current_time s; d = t + service_time in
           Inr (s\<lparr>server_busy := True, server_start_time := t,
                  next_departure_time := Fin d,
                  customer_stats := customer_stats s @
                    [\<lparr>c_arrival = t, c_start = t, c_departure = d\<rparr>],
                  rng := g'\<rparr>)))
      else Inr (s\<lparr>queue := queue s @ [current_time s]\<rparr>))"

definition release_server :: "real \<Rightarrow> sim_state \<Rightarrow> sim_state result" where
  "release_server service_rate s =
     (case queue s of
        arrival_time # rest \<Rightarrow>
          py_bind (exponential_draw service_rate (rng s)) (\<lambda>(service_time, g').
            (let t = current_time s; d = t + service_time in
             Inr (s\<lparr>queue := rest, next_departure_time := Fin d,
                    customer_stats := customer_stats s @
                      [\<lparr>c_arrival = arrival_time, c_start = t, c_departure = d\<rparr>],
                    server_start_time := t, rng := g'\<rparr>)))
      | [] \<Rightarrow> Inr (s\<lparr>server_busy := False, next_departure_time := Infinity\<rparr>))"

subsection \<open>The outcome of each decision\<close>

lemma admit_customer_idle:
  "\<not> server_busy s \<Longrightarrow>
   admit_customer service_rate s = Inr s' \<longleftrightarrow>
   (\<exists>st g'. exponential_draw service_rate (rng s) = Inr (st, g') \<and>
      s' = s\<lparr>server_busy := True, server_start_time := current_time s,
             next_departure_time := Fin (current_time s + st),
             customer_stats := customer_stats s @
               [\<lparr>c_arrival = current_time s, c_start = current_time s,
                 c_departure = current_time s + st\<rparr>],
             rng := g'\<rparr>)"
  by (auto simp: admit_customer_def Let_def split: prod.splits)

lemma admit_customer_busy:
  "server_busy s \<Longrightarrow> admit_customer service_rate s = Inr (s\<lparr>queue := queue s @ [current_time s]\<rparr>)"
  by (simp add: admit_customer_def)

lemma release_server_empty:
  "queue s = [] \<Longrightarrow>
   release_server service_rate s = Inr (s\<lparr>server_busy := False, next_departure_time := Infinity\<rparr>)"
  by (simp add: release_server_def)

lemma release_server_front:
  "queue s = a # rest \<Longrightarrow>
   release_server service_rate s = Inr s' \<longleftrightarrow>
   (\<exists>st g'. exponential_draw service_rate (rng s) = Inr (st, g') \<and>
      s' = s\<lparr>queue := rest, next_departure_time := Fin (current_time s + st),
             customer_stats := customer_stats s @
               [\<lparr>c_arrival = a, c_start = current_time s,
                 c_departure = current_time s + st\<rparr>],
             server_start_time := current_time s, rng := g'\<rparr>)"
  by (auto simp: release_server_def Let_def split: prod.splits)

end
