(* ===== verification/Event_Clock.thy ===== *)
theory Event_Clock
  imports Queueing_Discipline
begin

section \<open>Event clock and state tracker: the event loop\<close>

text \<open>
  The loop of \<open>simulate_mm1_queue\<close> (lines 27--75) and the final ledger update
  (line 78):
  \<^item> \<open>process_arrival\<close> (lines 30--52): the time since the last event is added to the
    ledger entry of the current population, the clock moves to the arrival, the next
    arrival is drawn, the discipline admits the customer, the population grows by one;
  \<^item> \<open>process_departure\<close> (lines 55--75): the same accounting up to the departure time,
    the population shrinks by one, the discipline releases the server;
  \<^item> \<open>sim_step\<close> (lines 28--75): an arrival when \<open>next_arrival_time <=
    next_departure_time\<close> (ties go to the arrival; an infinite departure time always
    loses), a departure otherwise;
  \<^item> \<open>sim_loop\<close> (lines 27--75): steps while \<open>current_time < simulation_time\<close>;
  \<^item> \<open>finish_ledger\<close> (line 78) and \<open>run_engine\<close> (lines 10--78): initial state, loop,
    final update of the ledger with \<open>simulation_time - last_event_time\<close>.
  The loop terminates: each step consumes a sample, or turns a pending departure into
  none (\<open>sim_measure\<close>).
\<close>

definition advance_clock :: "real \<Rightarrow> sim_state \<Rightarrow> sim_state" where
  "advance_clock t s =
     s\<lparr>state_time := ledger_add (state_time s) (current_state s) (t - last_event_time s),
        last_event_time := t, current_time := t\<rparr>"

definition process_arrival :: "real \<Rightarrow> real \<Rightarrow> sim_state \<Rightarrow> sim_state result" where
  "process_arrival arrival_rate service_rate s =
     (let t = next_arrival_time s; s1 = advance_clock t s
      in py_bind (exponential_draw arrival_rate (rng s1)) (\<lambda>(ia, g').
           py_bind (admit_customer service_rate (s1\<lparr>next_arrival_time := t + ia, rng := g'\<rparr>))
             (\<lambda>s2. Inr (s2\<lparr>current_state := current_state s2 + 1\<rparr>))))"

definition process_departure :: "real \<Rightarrow> real \<Rightarrow> sim_state \<Rightarrow> sim_state result" where
  "process_departure service_rate d s =
     (let s1 = advance_clock d s
      in release_server service_rate (s1\<lparr>current_state := current_state s1 - 1\<rparr>))"

definition sim_step :: "real \<Rightarrow> real \<Rightarrow> sim_state \<Rightarrow> sim_state result" where
  "sim_step arrival_rate service_rate s =
     (case next_departure_time s of
        Infinity \<Rightarrow> process_arrival arrival_rate service_rate s
      | Fin d \<Rightarrow>
          if next_arrival_time s \<le> d then process_arrival arrival_rate service_rate s
          else process_departure service_rate d s)"

lemma advance_clock_sel [simp]:
  "current_time (advance_clock t s) = t"
  "last_event_time (advance_clock t s) = t"
  "state_time (advance_clock t s) =
     ledger_add (state_time s) (current_state s) (t - last_event_time s)"
  "server_busy (advance_clock t s) = server_busy s"
  "server_start_time (advance_clock t s) = server_start_time s"
  "next_departure_time (advance_clock t s) = next_departure_time s"
  "next_arrival_time (advance_clock t s) = next_arrival_time s"
  "queue (advance_clock t s) = queue s"
  "customer_stats (advance_clock t s) = customer_stats s"
  "current_state (advance_clock t s) = current_state s"
  "rng (advance_clock t s) = rng s"
  by (simp_all add: advance_clock_def)

declare advance_clock_def [step_defs] process_arrival_def [step_defs] process_departure_def [step_defs]
  admit_customer_def [step_defs] release_server_def [step_defs]

lemma sim_step_select:
  "sim_step arrival_rate service_rate s =
     (if Fin (next_arrival_time s) \<le> next_departure_time s
      then process_arrival arrival_rate service_rate s
      else process_departure service_rate (case next_departure_time s of Fin d \<Rightarrow> d) s)"
  by (cases "next_departure_time s") (auto simp: sim_step_def)

subsection \<open>What one event does, branch by branch\<close>

text \<open>
  Each successful handler call, on each branch of the discipline, with the samples it
  consumed: these four rules carry every invariant proof below.
\<close>

lemma process_arrival_idle:
  assumes "\<not> server_busy s" "process_arrival arrival_rate service_rate s = Inr s'"
  obtains u v g where "rng s = u # v # g" "0 < arrival_rate" "0 < service_rate"
    "s' = (advance_clock (next_arrival_time s) s)\<lparr>
        next_arrival_time := next_arrival_time s + u / arrival_rate,
        server_busy := True, server_start_time := next_arrival_time s,
        next_departure_time := Fin (next_arrival_time s + v / service_rate),
        customer_stats := customer_stats s @ [\<lparr>c_arrival = next_arrival_time s,
           c_start = next_arrival_time s,
           c_departure = next_arrival_time s + v / service_rate\<rparr>],
        rng := g, current_state := current_state s + 1\<rparr>"
  using assms
  by (auto simp: process_arrival_def Let_def advance_clock_def admit_customer_idle
      exponential_draw_Inr split: prod.splits)

lemma process_arrival_busy:
  assumes "server_busy s" "process_arrival arrival_rate service_rate s = Inr s'"
  obtains u g where "rng s = u # g" "0 < arrival_rate"
    "s' = (advance_clock (next_arrival_time s) s)\<lparr>
        next_arrival_time := next_arrival_time s + u / arrival_rate,
        queue := queue s @ [next_arrival_time s],
        rng := g, current_state := current_state s + 1\<rparr>"
  using assms
  by (auto simp: process_arrival_def Let_def advance_clock_def admit_customer_busy
      exponential_draw_Inr split: prod.splits)

lemma process_departure_next:
  assumes "queue s = a # rest" "process_departure service_rate d s = Inr s'"
  obtains v g where "rng s = v # g" "0 < service_rate"
    "s' = (advance_clock d s)\<lparr>current_state := current_state s - 1, queue := rest,
        next_departure_time := Fin (d + v / service_rate),
        customer_stats := customer_stats s @
          [\<lparr>c_arrival = a, c_start = d, c_departure = d + v / service_rate\<rparr>],
        server_start_time := d, rng := g\<rparr>"
  using assms
  by (auto simp: process_departure_def Let_def advance_clock_def release_server_front
      exponential_draw_Inr split: prod.splits)

lemma process_departure_empty:
  "queue s = [] \<Longrightarrow>
   process_departure service_rate d s =
     Inr ((advance_clock d s)\<lparr>current_state := current_state s - 1,
            server_busy := False, next_departure_time := Infinity\<rparr>)"
  by (simp add: process_departure_def advance_clock_def release_server_empty)

text \<open>One step of the loop is one of four transitions, each with its guard.\<close>

lemma sim_step_cases:
  assumes "sim_step arrival_rate service_rate s = Inr s'"
  obtains (arrive_idle) u v g where
    "Fin (next_arrival_time s) \<le> next_departure_time s" "\<not> server_busy s"
    "rng s = u # v # g" "0 < arrival_rate" "0 < service_rate"
    "s' = (advance_clock (next_arrival_time s) s)\<lparr>
        next_arrival_time := next_arrival_time s + u / arrival_rate,
        server_busy := True, server_start_time := next_arrival_time s,
        next_departure_time := Fin (next_arrival_time s + v / service_rate),
        customer_stats := customer_stats s @ [\<lparr>c_arrival = next_arrival_time s,
           c_start = next_arrival_time s,
           c_departure = next_arrival_time s + v / service_rate\<rparr>],
        rng := g, current_state := current_state s + 1\<rparr>"
  | (arrive_busy) u g where
    "Fin (next_arrival_time s) \<le> next_departure_time s" "server_busy s"
    "rng s = u # g" "0 < arrival_rate"
    "s' = (advance_clock (next_arrival_time s) s)\<lparr>
        next_arrival_time := next_arrival_time s + u / arrival_rate,
        queue := queue s @ [next_arrival_time s],
        rng := g, current_state := current_state s + 1\<rparr>"
  | (depart_next) d a rest v g where
    "next_departure_time s = Fin d" "d < next_arrival_time s" "queue s = a # rest"
    "rng s = v # g" "0 < service_rate"
    "s' = (advance_clock d s)\<lparr>current_state := current_state s - 1, queue := rest,
        next_departure_time := Fin (d + v / service_rate),
        customer_stats := customer_stats s @
          [\<lparr>c_arrival = a, c_start = d, c_departure = d + v / service_rate\<rparr>],
        server_start_time := d, rng := g\<rparr>"
  | (depart_idle) d where
    "next_departure_time s = Fin d" "d < next_arrival_time s" "queue s = []"
    "s' = (advance_clock d s)\<lparr>current_state := current_state s - 1,
            server_busy := False, next_departure_time := Infinity\<rparr>"
proof (cases "Fin (next_arrival_time s) \<le> next_departure_time s")
  case True
  with assms have arr: "process_arrival arrival_rate service_rate s = Inr s'"
    by (simp add: sim_step_select)
  show ?thesis
  proof (cases "server_busy s")
    case False
    show ?thesis using process_arrival_idle [OF False arr] arrive_idle [OF True False] by blast
  next
    case busy: True
    show ?thesis using process_arrival_busy [OF busy arr] arrive_busy [OF True busy] by blast
  qed
next
  case False
  then obtain d where d: "next_departure_time s = Fin d" "d < next_arrival_time s"
    by (cases "next_departure_time s") auto
  with False assms have dep: "process_departure service_rate d s = Inr s'"
    by (simp add: sim_step_select)
  show ?thesis
  proof (cases "queue s")
    case Nil
    with dep d show ?thesis using process_departure_empty [of s service_rate d]
      by (metis depart_idle sum.inject(2))
  next
    case (Cons a rest)
    show ?thesis using process_departure_next [OF Cons dep] depart_next [OF d Cons] by blast
  qed
qed

subsection \<open>Termination of the loop\<close>

definition sim_measure :: "sim_state \<Rightarrow> nat" where
  "sim_measure s = 2 * length (rng s) + (if next_departure_time s = Infinity then 0 else 1)"

lemma admit_customer_measure:
  "admit_customer service_rate s = Inr s' \<Longrightarrow>
   2 * length (rng s') + (if next_departure_time s' = Infinity then 0 else 1)
     \<le> 2 * length (rng s) + 1"
  by (cases "server_busy s")
     (auto simp: admit_customer_idle admit_customer_busy dest!: exponential_draw_length)

lemma release_server_measure:
  "release_server service_rate s = Inr s' \<Longrightarrow> sim_measure s' < 2 * length (rng s) + 1"
  by (cases "queue s")
     (auto simp: sim_measure_def release_server_empty release_server_front
           dest!: exponential_draw_length)

lemma process_arrival_measure:
  "process_arrival arrival_rate service_rate s = Inr s' \<Longrightarrow> sim_measure s' < sim_measure s"
  by (fastforce simp: process_arrival_def advance_clock_def sim_measure_def Let_def split: prod.splits
      dest!: admit_customer_measure exponential_draw_length)

lemma process_departure_measure:
  "process_departure service_rate d s = Inr s' \<Longrightarrow> next_departure_time s = Fin d \<Longrightarrow>
   sim_measure s' < sim_measure s"
  by (auto simp: process_departure_def advance_clock_def sim_measure_def dest!: release_server_measure)

text \<open>The termination argument of the loop: every successful step lowers the measure.\<close>

lemma sim_step_measure:
  "sim_step arrival_rate service_rate s = Inr s' \<Longrightarrow> sim_measure s' < sim_measure s"
  by (auto simp: sim_step_def split: etime.splits if_splits
      dest: process_arrival_measure process_departure_measure)

function sim_loop :: "real \<Rightarrow> real \<Rightarrow> real \<Rightarrow> sim_state \<Rightarrow> sim_state result" where
  "sim_loop arrival_rate service_rate simulation_time s =
     (if current_time s < simulation_time
      then py_bind (sim_step arrival_rate service_rate s)
             (sim_loop arrival_rate service_rate simulation_time)
      else Inr s)"
  by pat_completeness auto
termination
  by (relation "measure (\<lambda>(_, _, _, s). sim_measure s)") (auto dest: sim_step_measure)

declare sim_loop.simps [simp del]

definition finish_ledger :: "real \<Rightarrow> sim_state \<Rightarrow> sim_state" where
  "finish_ledger simulation_time s =
     s\<lparr>state_time := ledger_add (state_time s) (current_state s)
                      (simulation_time - last_event_time s)\<rparr>"

definition run_engine :: "real \<Rightarrow> real \<Rightarrow> real \<Rightarrow> rng \<Rightarrow> sim_state result" where
  "run_engine arrival_rate service_rate simulation_time g =
     py_bind (init_state arrival_rate g) (\<lambda>s0.
       py_bind (sim_loop arrival_rate service_rate simulation_time s0) (\<lambda>s.
         Inr (finish_ledger simulation_time s)))"

text \<open>The definitions a closed run unfolds through, for evaluation by \<open>simp\<close>.\<close>

lemmas engine_eval = run_engine_def init_state_def sim_loop.simps sim_step_def step_defs
  exponential_draw_def finish_ledger_def ledger_add_def ledger_get_def Let_def

end
