(* ===== verification/Engine_Invariants.thy ===== *)
theory Engine_Invariants
  imports Event_Clock
begin

section \<open>Invariants of the event loop\<close>

text \<open>
  What every state of the loop satisfies, split by concern:
  \<^item> \<open>population_inv\<close>: \<open>current_state\<close> counts the waiting customers plus the one in
    service; a departure is pending exactly when the server is busy; an idle server has
    an empty line (the spec's invariant on \<open>next_departure_time\<close>);
  \<^item> \<open>ledger_inv\<close>: the ledger's keys are distinct and non-negative, and its entries sum
    to \<open>last_event_time\<close>;
  \<^item> \<open>clock_inv\<close>: the remaining samples are non-negative, the clock is at the last
    event, never negative, and no pending event lies in the past;
  \<^item> \<open>trace_inv\<close>: the recorded customers and the line are in arrival order (FIFO), each
    record has \<open>arrival <= start <= departure\<close>, service intervals follow one another
    without overlap, and every record but the one in service has departed;
  \<^item> \<open>ledger_nonneg\<close>: every ledger entry the loop builds is non-negative.
  Each is preserved by \<open>sim_step\<close> (given the others); \<open>reachable\<close> collects the
  states of a run, all of which satisfy them. The last subsection reads the abstract
  FIFO list \<open>in_system\<close> off a state and shows the discipline refines it.
\<close>

definition population_inv :: "sim_state \<Rightarrow> bool" where
  "population_inv s \<longleftrightarrow>
     current_state s = int (length (queue s)) + (if server_busy s then 1 else 0) \<and>
     (next_departure_time s = Infinity \<longleftrightarrow> \<not> server_busy s) \<and>
     (\<not> server_busy s \<longrightarrow> queue s = [])"

definition ledger_inv :: "sim_state \<Rightarrow> bool" where
  "ledger_inv s \<longleftrightarrow>
     ledger_ok (state_time s) \<and> ledger_total (state_time s) = last_event_time s \<and>
     (\<forall>n \<in> fst ` set (state_time s). 0 \<le> n)"

definition clock_inv :: "sim_state \<Rightarrow> bool" where
  "clock_inv s \<longleftrightarrow>
     valid_rng (rng s) \<and> current_time s = last_event_time s \<and> 0 \<le> current_time s \<and>
     current_time s \<le> next_arrival_time s \<and> Fin (current_time s) \<le> next_departure_time s"

definition trace_inv :: "sim_state \<Rightarrow> bool" where
  "trace_inv s \<longleftrightarrow>
     sorted (map c_arrival (customer_stats s) @ queue s) \<and>
     (\<forall>q \<in> set (queue s). 0 \<le> q \<and> q \<le> current_time s) \<and>
     (\<forall>c \<in> set (customer_stats s). 0 \<le> c_arrival c \<and> c_arrival c \<le> c_start c \<and>
        c_start c \<le> c_departure c \<and> c_start c \<le> current_time s) \<and>
     sorted_wrt (\<lambda>c c'. c_departure c \<le> c_start c') (customer_stats s) \<and>
     (\<forall>c \<in> set (butlast (customer_stats s)). c_departure c \<le> current_time s) \<and>
     (if server_busy s
      then customer_stats s \<noteq> [] \<and>
           c_start (last (customer_stats s)) = server_start_time s \<and>
           next_departure_time s = Fin (c_departure (last (customer_stats s)))
      else (\<forall>c \<in> set (customer_stats s). c_departure c \<le> current_time s))"

lemma population_inv_step:
  assumes "sim_step arrival_rate service_rate s = Inr s'" "population_inv s"
  shows "population_inv s'"
  using assms by (cases rule: sim_step_cases) (auto simp: population_inv_def)

lemma population_nonneg: "population_inv s \<Longrightarrow> 0 \<le> current_state s"
  by (simp add: population_inv_def)

lemma ledger_inv_step:
  assumes "sim_step arrival_rate service_rate s = Inr s'" "ledger_inv s" "population_inv s"
  shows "ledger_inv s'"
  using assms population_nonneg [OF assms(3)]
  by (cases rule: sim_step_cases) (auto simp: ledger_inv_def ledger_simps population_inv_def)

lemma clock_inv_step:
  assumes "sim_step arrival_rate service_rate s = Inr s'" "clock_inv s"
  shows "clock_inv s'"
  using assms by (cases rule: sim_step_cases) (auto simp: clock_inv_def)

lemma trace_inv_step:
  assumes "sim_step arrival_rate service_rate s = Inr s'" "trace_inv s" "clock_inv s"
    "population_inv s"
  shows "trace_inv s'"
  using assms
proof (cases rule: sim_step_cases)
  case (arrive_idle u v g)
  then show ?thesis using assms(2-4)
    by (auto simp: trace_inv_def clock_inv_def population_inv_def sorted_append
        sorted_wrt_append)
next
  case (arrive_busy u g)
  then show ?thesis using assms(2-4)
    by (auto simp: trace_inv_def clock_inv_def population_inv_def sorted_append)
next
  case (depart_next d a rest v g)
  then show ?thesis using assms(2-4)
    by (fastforce simp: trace_inv_def clock_inv_def population_inv_def sorted_append
        sorted_wrt_append dest: in_set_butlast_or_last)
next
  case (depart_idle d)
  then show ?thesis using assms(2-4)
    by (fastforce simp: trace_inv_def clock_inv_def population_inv_def
        dest: in_set_butlast_or_last)
qed

text \<open>
  With a valid sample stream time never runs backwards, so every ledger entry the loop
  builds is a sum of non-negative intervals.
\<close>

definition ledger_nonneg :: "sim_state \<Rightarrow> bool" where
  "ledger_nonneg s \<longleftrightarrow> (\<forall>x \<in> set (state_time s). 0 \<le> snd x)"

lemma ledger_nonneg_step:
  assumes "sim_step arrival_rate service_rate s = Inr s'" "ledger_nonneg s" "clock_inv s"
  shows "ledger_nonneg s'"
  using assms
  by (cases rule: sim_step_cases)
     (fastforce simp: ledger_nonneg_def clock_inv_def dest: ledger_add_nonneg)+

subsection \<open>The invariant of the loop\<close>

definition engine_inv :: "sim_state \<Rightarrow> bool" where
  "engine_inv s \<longleftrightarrow>
     population_inv s \<and> ledger_inv s \<and> clock_inv s \<and> trace_inv s \<and> ledger_nonneg s"

lemma engine_inv_step:
  "sim_step arrival_rate service_rate s = Inr s' \<Longrightarrow> engine_inv s \<Longrightarrow> engine_inv s'"
  by (simp add: engine_inv_def population_inv_step ledger_inv_step clock_inv_step trace_inv_step
      ledger_nonneg_step)

lemma engine_inv_init:
  "init_state arrival_rate g = Inr s \<Longrightarrow> valid_rng g \<Longrightarrow> engine_inv s"
  by (auto simp: init_state_Inr engine_inv_def population_inv_def ledger_inv_def clock_inv_def
      trace_inv_def ledger_ok_def ledger_total_def ledger_nonneg_def exponential_draw_Inr)

subsection \<open>Reachable states\<close>

text \<open>
  The states the loop visits: the initial state, and a step from a visited state whose
  clock is still before the horizon. Every reachable state satisfies the invariant, and
  the loop returns a reachable state.
\<close>

inductive reachable :: "real \<Rightarrow> real \<Rightarrow> real \<Rightarrow> rng \<Rightarrow> sim_state \<Rightarrow> bool"
  for arrival_rate service_rate simulation_time g
where
  start: "init_state arrival_rate g = Inr s \<Longrightarrow>
     reachable arrival_rate service_rate simulation_time g s"
| step: "reachable arrival_rate service_rate simulation_time g s \<Longrightarrow>
     current_time s < simulation_time \<Longrightarrow> sim_step arrival_rate service_rate s = Inr s' \<Longrightarrow>
     reachable arrival_rate service_rate simulation_time g s'"

inductive_cases reachable_cases: "reachable arrival_rate service_rate simulation_time g s"

text \<open>Population and ledger invariants hold whatever the samples are.\<close>

lemma reachable_count_inv:
  "reachable arrival_rate service_rate h g s \<Longrightarrow> population_inv s \<and> ledger_inv s"
proof (induction rule: reachable.induct)
  case (start s)
  then show ?case
    by (auto simp: init_state_Inr population_inv_def ledger_inv_def ledger_ok_def
        ledger_total_def)
next
  case (step s s')
  then show ?case by (blast intro: population_inv_step ledger_inv_step)
qed

lemma finish_ledger_inv:
  "ledger_inv s \<Longrightarrow> population_inv s \<Longrightarrow>
   ledger_ok (state_time (finish_ledger h s)) \<and> ledger_total (state_time (finish_ledger h s)) = h \<and>
   (\<forall>n \<in> fst ` set (state_time (finish_ledger h s)). 0 \<le> n)"
  using population_nonneg [of s]
  by (auto simp: finish_ledger_def ledger_inv_def ledger_simps)

lemma reachable_engine_inv:
  "reachable arrival_rate service_rate h g s \<Longrightarrow> valid_rng g \<Longrightarrow> engine_inv s"
proof (induction rule: reachable.induct)
  case (start s)
  then show ?case by (rule engine_inv_init)
next
  case (step s s')
  then show ?case by (blast intro: engine_inv_step)
qed

lemma sim_loop_reachable:
  "sim_loop arrival_rate service_rate h s = Inr s' \<Longrightarrow> reachable arrival_rate service_rate h g s \<Longrightarrow>
   reachable arrival_rate service_rate h g s' \<and> h \<le> current_time s'"
proof (induction arrival_rate service_rate h s rule: sim_loop.induct)
  case (1 arrival_rate service_rate h s)
  show ?case
  proof (cases "current_time s < h")
    case True
    with "1.prems"(1) obtain s1 where
      s1: "sim_step arrival_rate service_rate s = Inr s1"
      and rest: "sim_loop arrival_rate service_rate h s1 = Inr s'"
      by (auto simp: sim_loop.simps [of arrival_rate service_rate h s])
    from "1.prems"(2) True s1 have "reachable arrival_rate service_rate h g s1"
      by (rule reachable.step)
    with "1.IH" [OF True s1 rest] show ?thesis by simp
  next
    case False
    with "1.prems" show ?thesis by (simp add: sim_loop.simps [of arrival_rate service_rate h s])
  qed
qed

lemma run_engine_Inr:
  "run_engine arrival_rate service_rate h g = Inr s \<Longrightarrow>
   \<exists>s1. reachable arrival_rate service_rate h g s1 \<and> h \<le> current_time s1 \<and>
        s = finish_ledger h s1"
  by (auto simp: run_engine_def dest!: sim_loop_reachable [OF _ reachable.start])

subsection \<open>The line as an abstract FIFO queue\<close>

text \<open>
  Abstractly the system holds one FIFO list of customers, identified by their arrival
  times: the one in service first, then the waiting line. \<open>in_system\<close> reads it off
  the concrete state (the customer in service is the last record). An arrival appends
  to the list, a departure removes its head (the list-based queue specification:
  enqueue is \<open>xs @ [x]\<close>, dequeue is \<open>tl xs\<close>), and the population count is its
  length.
\<close>

definition in_system :: "sim_state \<Rightarrow> real list" where
  "in_system s =
     (if server_busy s then [c_arrival (last (customer_stats s))] else []) @ queue s"

text \<open>
  C17. The discipline refines the abstract FIFO queue: in every reachable state (valid
  samples) the population count is the length of the abstract list, and each step
  either enqueues the arriving customer at the back or dequeues the one at the front.
\<close>

theorem fifo_refinement:
  assumes "reachable arrival_rate service_rate h g s" "valid_rng g"
    and "sim_step arrival_rate service_rate s = Inr s'"
  shows "current_state s = int (length (in_system s)) \<and>
         (in_system s' = in_system s @ [next_arrival_time s] \<or>
          in_system s \<noteq> [] \<and> in_system s' = tl (in_system s))"
proof -
  from reachable_engine_inv [OF assms(1,2)] have p: "population_inv s" and t: "trace_inv s"
    by (simp_all add: engine_inv_def)
  from p have n: "current_state s = int (length (in_system s))"
    by (simp add: population_inv_def in_system_def)
  from assms(3) have "in_system s' = in_system s @ [next_arrival_time s] \<or>
      in_system s \<noteq> [] \<and> in_system s' = tl (in_system s)"
  proof (cases rule: sim_step_cases)
    case (arrive_idle u v g')
    with p show ?thesis by (simp add: in_system_def population_inv_def)
  next
    case (arrive_busy u g')
    with t show ?thesis by (simp add: in_system_def trace_inv_def)
  next
    case (depart_next d a rest v g')
    with p show ?thesis by (simp add: in_system_def population_inv_def)
  next
    case (depart_idle d)
    with p show ?thesis by (simp add: in_system_def population_inv_def)
  qed
  with n show ?thesis by blast
qed

end
