(* ===== verification/Statistics.thy ===== *)
theory Statistics
  imports Sim_State
begin

section \<open>Statistics reducer\<close>

text \<open>
  Lines 80--128 of \<open>simulate_mm1_queue\<close> reduce the final state to the result dict,
  modelled as the record \<open>sim_result\<close> with the dict's keys as fields:
  \<^item> \<open>count_completed\<close> (line 84): customers whose departure is at or before the
    horizon;
  \<^item> \<open>collect_stats\<close> (lines 87--97): the loop that gathers system and queue times of
    the completed customers and sums their service times, with its accumulator;
  \<^item> \<open>partial_busy\<close> (lines 99--101): the busy time of a service still running at the
    horizon;
  \<^item> \<open>py_mean\<close> (lines 104--105): \<open>np.mean(xs) if xs else 0\<close>;
  \<^item> \<open>time_weighted\<close> (lines 110--111): \<open>sum(f(n) * t for n, t in state_time.items())\<close>;
  \<^item> \<open>reduce_stats\<close> (lines 80--128): the whole reduction; its divisions by
    \<open>simulation_time\<close> raise \<open>ZeroDivisionError\<close> for a zero horizon.
  \<open>completed_stats\<close> is the reference definition of the loop by \<open>filter\<close> and
  \<open>map\<close>; \<open>collect_stats_acc\<close> relates the loop to it, so that the field lemmas
  \<open>reduce_stats_Inr\<close> can state each result field in closed form.
\<close>

record sim_result =
  total_customers :: nat
  completed_customers :: nat
  total_system_time :: real
  total_queue_time :: real
  server_busy_time :: real
  average_system_time :: real
  average_queue_time :: real
  server_utilization :: real
  average_system_length :: real
  average_queue_length :: real
  state_probabilities :: "(int \<times> real) list"

definition count_completed :: "real \<Rightarrow> customer list \<Rightarrow> nat" where
  "count_completed simulation_time cs =
     length (filter (\<lambda>c. c_departure c \<le> simulation_time) cs)"

fun collect_stats ::
  "real \<Rightarrow> customer list \<Rightarrow> real list \<times> real list \<times> real \<Rightarrow> real list \<times> real list \<times> real"
where
  "collect_stats simulation_time [] acc = acc"
| "collect_stats simulation_time (c # cs) (system_times, queue_times, busy) =
     collect_stats simulation_time cs
       (if c_departure c \<le> simulation_time
        then (system_times @ [c_departure c - c_arrival c],
              queue_times @ [c_start c - c_arrival c],
              busy + (c_departure c - c_start c))
        else (system_times, queue_times, busy))"

definition partial_busy :: "real \<Rightarrow> sim_state \<Rightarrow> real \<Rightarrow> real" where
  "partial_busy simulation_time s busy =
     (if server_busy s \<and> Fin simulation_time < next_departure_time s
      then busy + (simulation_time - server_start_time s) else busy)"

definition py_mean :: "real list \<Rightarrow> real" where
  "py_mean xs = (if xs = [] then 0 else sum_list xs / real (length xs))"

definition time_weighted :: "(int \<Rightarrow> real) \<Rightarrow> ledger \<Rightarrow> real" where
  "time_weighted f l = sum_list (map (\<lambda>(n, t). f n * t) l)"

definition reduce_stats :: "real \<Rightarrow> sim_state \<Rightarrow> sim_result result" where
  "reduce_stats simulation_time s =
     (let cs = customer_stats s;
          (system_times, queue_times, busy0) = collect_stats simulation_time cs ([], [], 0);
          busy = partial_busy simulation_time s busy0;
          l = state_time s
      in py_bind (py_div busy simulation_time) (\<lambda>utilization.
         py_bind (py_div (time_weighted real_of_int l) simulation_time) (\<lambda>avg_system_length.
         py_bind (py_div (time_weighted (\<lambda>n. real_of_int (max 0 (n - 1))) l) simulation_time)
           (\<lambda>avg_queue_length.
         Inr \<lparr>total_customers = length cs,
              completed_customers = count_completed simulation_time cs,
              total_system_time = sum_list system_times,
              total_queue_time = sum_list queue_times,
              server_busy_time = busy,
              average_system_time = py_mean system_times,
              average_queue_time = py_mean queue_times,
              server_utilization = utilization,
              average_system_length = avg_system_length,
              average_queue_length = avg_queue_length,
              state_probabilities = map (\<lambda>(n, t). (n, t / simulation_time)) l\<rparr>))))"

subsection \<open>Time-weighted sums over the ledger\<close>

lemma weighted_update_distinct:
  "distinct (map fst l) \<Longrightarrow>
   time_weighted f (AList.update n v l) = time_weighted f l - f n * ledger_get l n + f n * v"
proof (induction l)
  case Nil
  then show ?case by (simp add: time_weighted_def ledger_get_def)
next
  case (Cons p l)
  show ?case
  proof (cases "fst p = n")
    case True
    with Cons.prems have "map_of l n = None"
      by (auto simp: map_of_eq_None_iff)
    with True show ?thesis
      by (cases p) (simp add: time_weighted_def ledger_get_def)
  next
    case False
    with Cons show ?thesis
      by (cases p) (simp add: time_weighted_def ledger_get_def algebra_simps)
  qed
qed

lemma time_weighted_add [ledger_simps]:
  "ledger_ok l \<Longrightarrow> time_weighted f (ledger_add l n d) = time_weighted f l + f n * d"
  by (simp add: ledger_add_def ledger_ok_def weighted_update_distinct algebra_simps)

text \<open>
  Subtracting the customer in service: with non-negative distinct keys,
  \<open>max(0, n-1) = n - 1\<close> except at \<open>n = 0\<close>, so the queue-length sum is the
  population sum minus the total time plus the time at population 0.
\<close>

lemma queue_weighted_eq:
  "\<forall>n \<in> fst ` set l. 0 \<le> n \<Longrightarrow> distinct (map fst l) \<Longrightarrow>
   time_weighted (\<lambda>n. real_of_int (max 0 (n - 1))) l =
   time_weighted real_of_int l - ledger_total l + ledger_get l 0"
proof (induction l)
  case Nil
  then show ?case by (simp add: time_weighted_def ledger_total_def ledger_get_def)
next
  case (Cons p l)
  obtain n t where p: "p = (n, t)" by (cases p)
  show ?case
  proof (cases "n = 0")
    case True
    with Cons.prems p have "map_of l 0 = None" by (auto simp: map_of_eq_None_iff)
    with Cons p True show ?thesis
      by (simp add: time_weighted_def ledger_total_def ledger_get_def)
  next
    case False
    with Cons.prems p have "1 \<le> n" by auto
    then have "real_of_int (max 0 (n - 1)) * t = real_of_int n * t - t" by (simp add: algebra_simps)
    with Cons p False show ?thesis
      by (simp add: time_weighted_def ledger_total_def ledger_get_def)
  qed
qed

lemma probability_of_zero:
  "(case map_of (map (\<lambda>(n, t). (n, t / h)) l) 0 of None \<Rightarrow> 0 | Some p \<Rightarrow> p) =
   ledger_get l 0 / h"
  by (simp add: map_of_map ledger_get_def split: option.splits)

subsection \<open>The reference definition of the collecting loop\<close>

definition completed_stats :: "real \<Rightarrow> customer list \<Rightarrow> real list \<times> real list \<times> real" where
  "completed_stats simulation_time cs =
     (let done = filter (\<lambda>c. c_departure c \<le> simulation_time) cs
      in (map (\<lambda>c. c_departure c - c_arrival c) done,
          map (\<lambda>c. c_start c - c_arrival c) done,
          sum_list (map (\<lambda>c. c_departure c - c_start c) done)))"

lemma collect_stats_acc:
  "collect_stats h cs (xs, ys, b) =
     (let (xs', ys', b') = completed_stats h cs in (xs @ xs', ys @ ys', b + b'))"
  by (induction cs arbitrary: xs ys b) (auto simp: completed_stats_def Let_def)

subsection \<open>The result, field by field\<close>

lemma reduce_stats_Inr:
  assumes "reduce_stats h s = Inr r"
  shows "h \<noteq> 0"
    and "total_customers r = length (customer_stats s)"
    and "completed_customers r = count_completed h (customer_stats s)"
    and "total_system_time r = sum_list (fst (completed_stats h (customer_stats s)))"
    and "total_queue_time r = sum_list (fst (snd (completed_stats h (customer_stats s))))"
    and "server_busy_time r = partial_busy h s (snd (snd (completed_stats h (customer_stats s))))"
    and "average_system_time r = py_mean (fst (completed_stats h (customer_stats s)))"
    and "average_queue_time r = py_mean (fst (snd (completed_stats h (customer_stats s))))"
    and "server_utilization r = server_busy_time r / h"
    and "average_system_length r = time_weighted real_of_int (state_time s) / h"
    and "average_queue_length r =
           time_weighted (\<lambda>n. real_of_int (max 0 (n - 1))) (state_time s) / h"
    and "state_probabilities r = map (\<lambda>(n, t). (n, t / h)) (state_time s)"
  using assms
  by (auto simp: reduce_stats_def collect_stats_acc Let_def split: prod.splits)

lemma reduce_stats_succeeds: "h \<noteq> 0 \<Longrightarrow> \<exists>r. reduce_stats h s = Inr r"
  by (simp add: reduce_stats_def Let_def split: prod.split)

lemma sum_probabilities:
  "sum_list (map snd (map (\<lambda>(n, t). (n, t / h)) l)) = ledger_total l / h"
  by (induction l) (auto simp: ledger_total_def add_divide_distrib)

subsection \<open>Busy time of non-overlapping services\<close>

text \<open>
  Services that follow one another without overlap, all inside the window \<open>[a, b]\<close>,
  add up to at most the window's length.
\<close>

lemma service_sum_le:
  assumes "sorted_wrt (\<lambda>c c'. c_departure c \<le> c_start c') cs"
    and "\<forall>c \<in> set cs. a \<le> c_start c \<and> c_start c \<le> c_departure c \<and> c_departure c \<le> b"
    and "a \<le> b"
  shows "sum_list (map (\<lambda>c. c_departure c - c_start c) cs) \<le> b - a"
  using assms
proof (induction cs arbitrary: a)
  case Nil
  then show ?case by simp
next
  case (Cons c cs)
  then have "sum_list (map (\<lambda>c. c_departure c - c_start c) cs) \<le> b - c_departure c"
    by simp
  with Cons.prems(2) show ?case by simp
qed

lemma completed_busy:
  "snd (snd (completed_stats h cs)) =
     sum_list (map (\<lambda>c. c_departure c - c_start c) (filter (\<lambda>c. c_departure c \<le> h) cs))"
  by (simp add: completed_stats_def Let_def)

lemmas stats_eval = reduce_stats_def partial_busy_def py_mean_def time_weighted_def
  count_completed_def py_div_def

end
