(* ===== verification/Littles_Law.thy ===== *)
theory Littles_Law
  imports Engine_Invariants Statistics
begin

section \<open>Little's law on the sample path\<close>

text \<open>
  The spec checks Little's law \<open>L = lambda W\<close> only statistically. Its sample-path form
  holds exactly in every state the loop reaches: the time-weighted population sum
  \<open>sum n * state_time[n]\<close> (the numerator of \<open>average_system_length\<close>, line 110)
  equals the total time the customers have spent in the system up to the last event,
  \<open>sojourn_total\<close>: for a recorded customer, from arrival to departure or to the last
  event, whichever is first; for a waiting one, from arrival to the last event.
  The proof is an invariant of \<open>sim_step\<close>: an event at time \<open>t\<close> adds
  \<open>n * (t - last_event_time)\<close> to the left side, and each of the \<open>n\<close> customers in
  the system adds \<open>t - last_event_time\<close> to the right side.
\<close>

definition sojourn_total :: "sim_state \<Rightarrow> real" where
  "sojourn_total s =
     sum_list (map (\<lambda>c. min (c_departure c) (last_event_time s) - c_arrival c) (customer_stats s)) +
     sum_list (map (\<lambda>q. last_event_time s - q) (queue s))"

definition little_inv :: "sim_state \<Rightarrow> bool" where
  "little_inv s \<longleftrightarrow> time_weighted real_of_int (state_time s) = sojourn_total s"

lemma sojourn_frozen:
  "\<forall>c \<in> set cs. c_departure c \<le> L \<Longrightarrow> L \<le> t \<Longrightarrow>
   sum_list (map (\<lambda>c. min (c_departure c) t - c_arrival c) cs) =
   sum_list (map (\<lambda>c. min (c_departure c) L - c_arrival c) cs)"
  by (induction cs) auto

lemma sojourn_in_service:
  assumes "cs \<noteq> []" "\<forall>c \<in> set (butlast cs). c_departure c \<le> L" "L \<le> t"
    and "t \<le> c_departure (last cs)"
  shows "sum_list (map (\<lambda>c. min (c_departure c) t - c_arrival c) cs) =
         sum_list (map (\<lambda>c. min (c_departure c) L - c_arrival c) cs) + (t - L)"
proof -
  from assms(1) have cs: "cs = butlast cs @ [last cs]" by simp
  have "sum_list (map (\<lambda>c. min (c_departure c) t - c_arrival c) (butlast cs)) =
        sum_list (map (\<lambda>c. min (c_departure c) L - c_arrival c) (butlast cs))"
    using assms(2,3) by (rule sojourn_frozen)
  moreover have "min (c_departure (last cs)) t = t" "min (c_departure (last cs)) L = L"
    using assms(3,4) by auto
  ultimately show ?thesis by (subst (1 2) cs) simp
qed

lemma waiting_shift:
  "sum_list (map (\<lambda>q. t - q) qs) = sum_list (map (\<lambda>q. L - q) qs) + real (length qs) * (t - L)"
  by (induction qs) (auto simp: algebra_simps)

lemma little_inv_step:
  assumes step: "sim_step arrival_rate service_rate s = Inr s'"
    and inv: "engine_inv s" and li: "little_inv s"
  shows "little_inv s'"
proof -
  let ?cs = "customer_stats s" and ?L = "last_event_time s"
  let ?R = "\<lambda>t cs. sum_list (map (\<lambda>c. min (c_departure c) t - c_arrival c) cs)"
  from inv have p: "population_inv s" and l: "ledger_inv s" and c: "clock_inv s"
    and t: "trace_inv s"
    by (simp_all add: engine_inv_def)
  from l have ok: "ledger_ok (state_time s)" by (simp add: ledger_inv_def)
  from li have eq: "time_weighted real_of_int (state_time s) = ?R ?L ?cs +
      sum_list (map (\<lambda>q. ?L - q) (queue s))"
    by (simp add: little_inv_def sojourn_total_def)
  from step show ?thesis
  proof (cases rule: sim_step_cases)
    case (arrive_idle u v g)
    let ?t = "next_arrival_time s"
    from p arrive_idle have q: "queue s = []" and n: "current_state s = 0"
      by (auto simp: population_inv_def)
    from t c arrive_idle have "\<forall>c \<in> set ?cs. c_departure c \<le> ?L"
      by (simp add: trace_inv_def clock_inv_def)
    moreover from c have "?L \<le> ?t" by (simp add: clock_inv_def)
    ultimately have "?R ?t ?cs = ?R ?L ?cs" by (rule sojourn_frozen)
    moreover have "0 \<le> v / service_rate"
      using arrive_idle c by (simp add: clock_inv_def)
    ultimately show ?thesis using arrive_idle eq q n ok
      by (simp add: little_inv_def sojourn_total_def ledger_simps)
  next
    case (arrive_busy u g)
    let ?t = "next_arrival_time s"
    from p arrive_busy have n: "current_state s = int (length (queue s)) + 1"
      by (simp add: population_inv_def)
    from t c arrive_busy have "?cs \<noteq> []" "\<forall>c \<in> set (butlast ?cs). c_departure c \<le> ?L"
      "?t \<le> c_departure (last ?cs)"
      by (auto simp: trace_inv_def clock_inv_def)
    moreover from c have "?L \<le> ?t" by (simp add: clock_inv_def)
    ultimately have "?R ?t ?cs = ?R ?L ?cs + (?t - ?L)"
      by (intro sojourn_in_service) auto
    then show ?thesis using arrive_busy eq n ok waiting_shift [of ?t "queue s" ?L]
      by (simp add: little_inv_def sojourn_total_def ledger_simps algebra_simps)
  next
    case (depart_next d a rest v g)
    from p depart_next have n: "current_state s = int (length rest) + 2"
      by (simp add: population_inv_def)
    from t p depart_next have dl: "d = c_departure (last ?cs)" and ne: "?cs \<noteq> []"
      by (auto simp: trace_inv_def population_inv_def)
    from t c have "\<forall>c \<in> set (butlast ?cs). c_departure c \<le> ?L"
      by (simp add: trace_inv_def clock_inv_def)
    moreover from c depart_next have Ld: "?L \<le> d" by (simp add: clock_inv_def)
    ultimately have "?R d ?cs = ?R ?L ?cs + (d - ?L)"
      using ne dl by (intro sojourn_in_service) auto
    moreover have "0 \<le> v / service_rate"
      using depart_next c by (simp add: clock_inv_def)
    ultimately show ?thesis using depart_next eq n ok Ld waiting_shift [of d rest ?L]
      by (simp add: little_inv_def sojourn_total_def ledger_simps algebra_simps)
  next
    case (depart_idle d)
    from p depart_idle have n: "current_state s = 1"
      by (auto simp: population_inv_def)
    from t depart_idle p have dl: "d = c_departure (last ?cs)" and ne: "?cs \<noteq> []"
      by (auto simp: trace_inv_def population_inv_def)
    from t c have "\<forall>c \<in> set (butlast ?cs). c_departure c \<le> ?L"
      by (simp add: trace_inv_def clock_inv_def)
    moreover from c depart_idle have "?L \<le> d" by (simp add: clock_inv_def)
    ultimately have "?R d ?cs = ?R ?L ?cs + (d - ?L)"
      using ne dl by (intro sojourn_in_service) auto
    then show ?thesis using depart_idle eq n ok
      by (simp add: little_inv_def sojourn_total_def ledger_simps)
  qed
qed

lemma reachable_little_inv:
  assumes "reachable arrival_rate service_rate simulation_time g s" "valid_rng g"
  shows "little_inv s"
  using assms
proof (induction rule: reachable.induct)
  case (start s)
  then show ?case
    by (auto simp: init_state_Inr time_weighted_def sojourn_total_def little_inv_def)
next
  case (step s s')
  from step.hyps(1) step.prems have "engine_inv s" by (rule reachable_engine_inv)
  with step.hyps(3) step.IH [OF step.prems] show ?case
    using little_inv_step [of arrival_rate service_rate s s'] by simp
qed

text \<open>
  C13. Little's law on the sample path: in every state the loop reaches with a valid
  sample stream, the time-weighted population sum of the ledger equals the total time
  the customers have spent in the system up to the last event.
\<close>

theorem little_law_sample_path:
  assumes "reachable arrival_rate service_rate simulation_time g s" "valid_rng g"
  shows "time_weighted real_of_int (state_time s) = sojourn_total s"
  using reachable_little_inv [OF assms] by (simp add: little_inv_def)

end
