(* ===== verification/Run_Completes.thy ===== *)
theory Run_Completes
  imports Engine_Invariants
begin

section \<open>Enough samples: the run completes\<close>

text \<open>
  In the model a run fails with \<open>SamplesExhausted\<close> when the stream given to it is too
  short; the real generator is endless. This theory bounds the samples a run needs.
  Every arrival takes one sample and every service one more, plus the first arrival:
  \<open>samples_used\<close> is \<open>1 + arrivals + services\<close>. With every variate at least
  \<open>delta > 0\<close> the arrivals are at least \<open>delta / arrival_rate\<close> apart, so while the clock
  is before the horizon fewer than \<open>h * arrival_rate / delta\<close> customers have arrived,
  and \<open>2 * ceiling (h * arrival_rate / delta) + 3\<close> samples are always enough.
\<close>

definition arrived :: "sim_state \<Rightarrow> nat" where
  "arrived s = length (customer_stats s) + length (queue s)"

text \<open>
  \<open>gap\<close> is a lower bound of the interarrival times \<open>u / arrival_rate\<close> the stream
  can produce.
\<close>

definition supply_inv :: "real \<Rightarrow> rng \<Rightarrow> sim_state \<Rightarrow> bool" where
  "supply_inv gap g s \<longleftrightarrow>
     (\<exists>k. rng s = drop k g) \<and>
     length g = length (rng s) + 1 + arrived s + length (customer_stats s) \<and>
     real (arrived s) * gap \<le> current_time s \<and>
     real (Suc (arrived s)) * gap \<le> next_arrival_time s"

lemma drop_Cons_suffix: "u # rest = drop k g \<Longrightarrow> rest = drop (Suc k) g"
  by (metis drop_Suc drop_tl list.sel(3))

lemma drop_mem: "u # rest = drop k g \<Longrightarrow> u \<in> set g"
  by (metis in_set_dropD list.set_intros(1))

lemma supply_inv_step:
  assumes step: "sim_step arrival_rate service_rate s = Inr s'"
    and si: "supply_inv gap g s" and c: "clock_inv s"
    and lo: "\<forall>u \<in> set g. gap \<le> u / arrival_rate"
  shows "supply_inv gap g s'"
  using step
proof (cases rule: sim_step_cases)
  case (arrive_idle u v g')
  from si arrive_idle obtain k where k: "u # v # g' = drop k g" by (auto simp: supply_inv_def)
  then have "u \<in> set g" by (rule drop_mem)
  with lo have "gap \<le> u / arrival_rate" by blast
  moreover from k have "g' = drop (Suc (Suc k)) g" by (blast dest: drop_Cons_suffix)
  ultimately show ?thesis using si arrive_idle
    by (auto simp: supply_inv_def arrived_def distrib_right)
next
  case (arrive_busy u g')
  from si arrive_busy obtain k where k: "u # g' = drop k g" by (auto simp: supply_inv_def)
  then have "u \<in> set g" by (rule drop_mem)
  with lo have "gap \<le> u / arrival_rate" by blast
  moreover from k have "g' = drop (Suc k) g" by (rule drop_Cons_suffix)
  ultimately show ?thesis using si arrive_busy
    by (auto simp: supply_inv_def arrived_def distrib_right)
next
  case (depart_next d a rest v g')
  from si depart_next obtain k where k: "v # g' = drop k g" by (auto simp: supply_inv_def)
  then have "g' = drop (Suc k) g" by (rule drop_Cons_suffix)
  moreover from c depart_next have "current_time s \<le> d" by (simp add: clock_inv_def)
  ultimately show ?thesis using si depart_next
    by (auto simp: supply_inv_def arrived_def)
next
  case (depart_idle d)
  from c depart_idle have "current_time s \<le> d" by (simp add: clock_inv_def)
  with si depart_idle show ?thesis by (auto simp: supply_inv_def arrived_def)
qed

lemma supply_inv_init:
  "init_state arrival_rate g = Inr s \<Longrightarrow> \<forall>u \<in> set g. gap \<le> u / arrival_rate \<Longrightarrow>
   supply_inv gap g s"
  by (auto simp: init_state_Inr exponential_draw_Inr supply_inv_def arrived_def
      intro: exI [of _ 1])

lemma reachable_supply_inv:
  "reachable arrival_rate service_rate h g s \<Longrightarrow> valid_rng g \<Longrightarrow>
   \<forall>u \<in> set g. gap \<le> u / arrival_rate \<Longrightarrow> supply_inv gap g s"
proof (induction rule: reachable.induct)
  case (start s)
  then show ?case by (blast intro: supply_inv_init)
next
  case (step s s')
  from step.hyps(1) step.prems(1) have "engine_inv s" by (rule reachable_engine_inv)
  with step show ?case by (blast intro: supply_inv_step dest: engine_inv_def [THEN iffD1])
qed

text \<open>With positive rates, two samples are enough for any step.\<close>

lemma sim_step_succeeds:
  assumes "0 < arrival_rate" "0 < service_rate" "2 \<le> length (rng s)"
  shows "\<exists>s'. sim_step arrival_rate service_rate s = Inr s'"
proof -
  from assms(3) obtain u v rest where "rng s = u # v # rest"
    by (cases "rng s"; cases "tl (rng s)") auto
  with assms(1,2) show ?thesis
    by (auto simp: sim_step_def step_defs exponential_draw_def Let_def
        split: etime.splits list.splits)
qed

lemma arrived_below_horizon:
  assumes "real n * gap \<le> t" "t < h" "0 < gap"
  shows "n < nat \<lceil>h / gap\<rceil>"
proof -
  from assms have "real n < h / gap" by (simp add: pos_less_divide_eq)
  also have "\<dots> \<le> of_int \<lceil>h / gap\<rceil>" by (rule le_of_int_ceiling)
  finally have "int n < \<lceil>h / gap\<rceil>" by linarith
  then show ?thesis by linarith
qed

lemma sim_loop_completes:
  "reachable arrival_rate service_rate h g s \<Longrightarrow> valid_rng g \<Longrightarrow>
   0 < arrival_rate \<Longrightarrow> 0 < service_rate \<Longrightarrow> 0 < gap \<Longrightarrow>
   \<forall>u \<in> set g. gap \<le> u / arrival_rate \<Longrightarrow> 2 * nat \<lceil>h / gap\<rceil> + 3 \<le> length g \<Longrightarrow>
   \<exists>s'. sim_loop arrival_rate service_rate h s = Inr s'"
proof (induction arrival_rate service_rate h s rule: sim_loop.induct)
  case (1 arrival_rate service_rate h s)
  note r = "1.prems"(1) and v = "1.prems"(2) and rates = "1.prems"(3,4)
    and gap = "1.prems"(5) and lo = "1.prems"(6) and len = "1.prems"(7)
  show ?case
  proof (cases "current_time s < h")
    case True
    from reachable_supply_inv [OF r v lo] have si: "supply_inv gap g s" .
    then have "real (arrived s) * gap \<le> current_time s" by (simp add: supply_inv_def)
    from this True gap have "arrived s < nat \<lceil>h / gap\<rceil>" by (rule arrived_below_horizon)
    with si len have "2 \<le> length (rng s)" by (simp add: supply_inv_def arrived_def)
    with rates obtain s1 where s1: "sim_step arrival_rate service_rate s = Inr s1"
      by (blast dest: sim_step_succeeds)
    from r True s1 have "reachable arrival_rate service_rate h g s1"
      by (rule reachable.step)
    with "1.IH" [OF True s1] v rates gap lo len
    obtain s' where "sim_loop arrival_rate service_rate h s1 = Inr s'"
      by blast
    with True s1 show ?thesis by (simp add: sim_loop.simps [of arrival_rate service_rate h s])
  next
    case False
    then show ?thesis by (simp add: sim_loop.simps [of arrival_rate service_rate h s])
  qed
qed

end
