(* ===== verification/Simulator.thy ===== *)
theory Simulator
  imports Littles_Law Run_Completes
begin

section \<open>The simulator entry point: \<open>simulate_mm1_queue\<close>\<close>

text \<open>
  \<open>simulate_mm1_queue\<close> (\<open>src/mm1_queue_simulation.py\<close>, lines 5--128) is the engine
  (\<open>run_engine\<close>: initial state, event loop, final ledger update) followed by the reducer
  (\<open>reduce_stats\<close>). Both drivers call it, so it sits below them. This theory also
  holds the facts about its results that the drivers rely on: the result's population
  dict always has the key 0 (the initial \<open>{0: 0}\<close> of line 20 is never removed), so it is
  never empty, and its keys are distinct and non-negative; and a concrete run the
  witnesses evaluate.
\<close>

definition simulate_mm1_queue :: "real \<Rightarrow> real \<Rightarrow> real \<Rightarrow> rng \<Rightarrow> sim_result result" where
  "simulate_mm1_queue arrival_rate service_rate simulation_time g =
     py_bind (run_engine arrival_rate service_rate simulation_time g)
       (reduce_stats simulation_time)"

subsection \<open>The key 0 stays in the population dict\<close>

lemma sim_step_keeps_keys:
  assumes "sim_step arrival_rate service_rate s = Inr s'"
  shows "fst ` set (state_time s) \<subseteq> fst ` set (state_time s')"
  using assms by (cases rule: sim_step_cases) (simp_all add: ledger_simps subset_insertI)

lemma reachable_zero_key:
  "reachable arrival_rate service_rate h g s \<Longrightarrow> 0 \<in> fst ` set (state_time s)"
proof (induction rule: reachable.induct)
  case (start s)
  then show ?case by (auto simp: init_state_Inr)
next
  case (step s s')
  then show ?case using sim_step_keeps_keys by blast
qed

lemma run_engine_keys:
  assumes "run_engine arrival_rate service_rate h g = Inr s"
  shows "0 \<in> fst ` set (state_time s)" and "ledger_ok (state_time s)"
    and "\<forall>n \<in> fst ` set (state_time s). 0 \<le> n"
proof -
  from run_engine_Inr [OF assms] obtain s1 where
    r: "reachable arrival_rate service_rate h g s1" and s: "s = finish_ledger h s1" by blast
  from reachable_zero_key [OF r] show "0 \<in> fst ` set (state_time s)"
    by (simp add: s finish_ledger_def ledger_simps)
  from reachable_count_inv [OF r] finish_ledger_inv
  show "ledger_ok (state_time s)" and "\<forall>n \<in> fst ` set (state_time s). 0 \<le> n"
    unfolding s by blast+
qed

text \<open>The keys of the result's \<open>state_probabilities\<close> are those of the final ledger.\<close>

lemma probability_keys:
  "fst ` set (map (\<lambda>(n, t). (n, t / h)) l) = fst ` set l"
  "map fst (map (\<lambda>(n, t). (n, t / h)) l) = map fst l"
  by (force, induction l) auto

lemma simulate_keys:
  assumes "simulate_mm1_queue arrival_rate service_rate h g = Inr r"
  shows "0 \<in> fst ` set (state_probabilities r)" and "distinct (map fst (state_probabilities r))"
    and "\<forall>n \<in> fst ` set (state_probabilities r). 0 \<le> n"
    and "completed_customers r \<le> total_customers r"
proof -
  from assms obtain s where e: "run_engine arrival_rate service_rate h g = Inr s"
    and red: "reduce_stats h s = Inr r"
    by (auto simp: simulate_mm1_queue_def)
  note keys = run_engine_keys [OF e] and sp = reduce_stats_Inr(12) [OF red]
  show "0 \<in> fst ` set (state_probabilities r)"
    and "distinct (map fst (state_probabilities r))"
    and "\<forall>n \<in> fst ` set (state_probabilities r). 0 \<le> n"
    using keys unfolding sp probability_keys by (simp_all add: ledger_ok_def)
  show "completed_customers r \<le> total_customers r"
    by (simp add: reduce_stats_Inr(2,3) [OF red] count_completed_def)
qed

subsection \<open>Well-formed results\<close>

text \<open>
  What every result of the simulator satisfies, as a boolean predicate: the population
  dict has distinct, non-negative keys and contains 0; at most the arrived customers
  are completed; and the queue times, in total and on average, are non-negative and
  at most the system times.
\<close>

definition result_wf :: "sim_result \<Rightarrow> bool" where
  "result_wf r \<longleftrightarrow>
     distinct (map fst (state_probabilities r)) \<and> 0 \<in> set (map fst (state_probabilities r)) \<and>
     list_all (\<lambda>(n, p). 0 \<le> n) (state_probabilities r) \<and>
     completed_customers r \<le> total_customers r \<and>
     0 \<le> total_queue_time r \<and> total_queue_time r \<le> total_system_time r \<and>
     0 \<le> average_queue_time r \<and> average_queue_time r \<le> average_system_time r"

lemma sum_mean_mono:
  assumes "\<forall>x \<in> set xs. f x \<le> g x"
  shows "sum_list (map f xs) \<le> sum_list (map g xs) \<and> py_mean (map f xs) \<le> py_mean (map g xs)"
proof -
  from assms have "sum_list (map f xs) \<le> sum_list (map g xs)" by (intro sum_list_mono) auto
  then show ?thesis by (simp add: py_mean_def divide_right_mono)
qed

lemma completed_times_ordered:
  assumes "\<forall>c \<in> set cs. 0 \<le> c_start c - c_arrival c \<and>
             c_start c - c_arrival c \<le> c_departure c - c_arrival c"
  shows "0 \<le> sum_list (fst (snd (completed_stats h cs))) \<and>
         sum_list (fst (snd (completed_stats h cs))) \<le> sum_list (fst (completed_stats h cs)) \<and>
         0 \<le> py_mean (fst (snd (completed_stats h cs))) \<and>
         py_mean (fst (snd (completed_stats h cs))) \<le> py_mean (fst (completed_stats h cs))"
proof -
  let ?done = "filter (\<lambda>c. c_departure c \<le> h) cs"
  from assms have "\<forall>c \<in> set ?done. c_start c - c_arrival c \<le> c_departure c - c_arrival c"
    and "\<forall>c \<in> set ?done. (\<lambda>c. 0) c \<le> c_start c - c_arrival c" by auto
  from this [THEN sum_mean_mono] show ?thesis
    by (simp add: completed_stats_def Let_def py_mean_def)
qed

subsection \<open>A concrete run\<close>

text \<open>
  Rates 1 and 1, horizon 1, samples \<open>[1/5, 3/10, 14/5, 5, 1]\<close>. The first customer
  arrives at 0.2 and is served until 3, the second arrives at 0.5 and waits; the departure
  at 3 (past the horizon) starts the second service, which runs until 4.
\<close>

lemma example_run_engine:
  "run_engine 1 1 1 [1/5, 3/10, 14/5, 5, 1] = Inr \<lparr>current_time = 3, server_busy = True,
     server_start_time = 3, next_departure_time = Fin 4, queue = [],
     customer_stats = [\<lparr>c_arrival = 1/5, c_start = 1/5, c_departure = 3\<rparr>,
                       \<lparr>c_arrival = 1/2, c_start = 3, c_departure = 4\<rparr>],
     last_event_time = 3, state_time = [(0, 1/5), (1, - (17/10)), (2, 5/2)],
     current_state = 1, next_arrival_time = 11/2, rng = []\<rparr>"
  by (simp add: engine_eval)

lemma example_simulate:
  "simulate_mm1_queue 1 1 1 [1/5, 3/10, 14/5, 5, 1] = Inr \<lparr>total_customers = 2,
     completed_customers = 0, total_system_time = 0, total_queue_time = 0,
     server_busy_time = - 2, average_system_time = 0, average_queue_time = 0,
     server_utilization = - 2, average_system_length = 33/10, average_queue_length = 5/2,
     state_probabilities = [(0, 1/5), (1, - (17/10)), (2, 5/2)]\<rparr>"
  by (simp add: simulate_mm1_queue_def example_run_engine stats_eval completed_stats_def
      collect_stats_acc)

text \<open>
  Rates 1 and 1, horizon 2, samples \<open>[1/5, 1/2, 1/4, 2, 1/2, 3, 1]\<close>: two customers
  are served without waiting (in \<open>[1/5, 9/20]\<close> and \<open>[7/10, 6/5]\<close>); the third arrives
  at \<open>27/10\<close>, past the horizon, and is still admitted.
\<close>

lemma example_simulate_served:
  "simulate_mm1_queue 1 1 2 [1/5, 1/2, 1/4, 2, 1/2, 3, 1] = Inr \<lparr>total_customers = 3,
     completed_customers = 2, total_system_time = 3/4, total_queue_time = 0,
     server_busy_time = 1/20, average_system_time = 3/8, average_queue_time = 0,
     server_utilization = 1/40, average_system_length = 1/40, average_queue_length = 0,
     state_probabilities = [(0, 39/40), (1, 1/40)]\<rparr>"
  by (simp add: simulate_mm1_queue_def engine_eval stats_eval completed_stats_def
      collect_stats_acc)

end
