(* ===== verification/Console_Report.thy ===== *)
theory Console_Report
  imports Simulator
begin

section \<open>Console driver: \<open>run_mm1_simulation\<close> and the script's main block\<close>

text \<open>
  \<open>run_mm1_simulation\<close> (\<open>src/mm1_queue_simulation.py\<close>, lines 130--165) runs the
  simulator, prints a report and returns the result dict; the block under
  \<open>if __name__ == "__main__"\<close> (lines 167--175) calls it with fixed parameters.
  The model keeps what the report says and drops how it looks:
  \<^item> \<open>report_item\<close> is one printed line: a heading (\<open>Heading\<close>), a labelled real
    value with its unit (\<open>ValueLine\<close>), a labelled count (\<open>CountLine\<close>), the seed
    (\<open>SeedLine\<close>), or a row \<open>n = i: p\<close> of the population table (\<open>StateRow\<close>). The
    \<open>ValueLine\<close> holds the exact value its f-string formats (\<open>:.2f\<close>, \<open>:.4f\<close>
    only round it for display); a table row holds the printed value, \<open>.get(i, 0)\<close>
    rounded by \<open>:.4f\<close> (\<open>fmt_fixed 4\<close>), since the table is what a reader of the
    report reads back. Labels are ASCII renderings of the printed ones.
  \<^item> \<open>py_max\<close> is Python's \<open>max\<close> on the keys of a dict (line 160): \<open>ValueError\<close> on an
    empty one; \<open>state_table\<close> is lines 160--163, one row per \<open>i\<close> in
    \<open>range(max_state + 1)\<close>, each holding \<open>.get(i, 0)\<close> (the model's \<open>ledger_get\<close>)
    rounded to 4 decimals.
  \<^item> \<open>run_mm1_simulation\<close> returns the printed lines together with the outcome: an
    exception raised after some lines were printed (the division of line 143 raises
    \<open>ZeroDivisionError\<close> for a zero service rate, after five lines) leaves those lines on
    the console, so the printed prefix is part of the value.
  \<^item> The seed is printed (line 145) and is what \<open>simulate_mm1_queue\<close> reseeds NumPy
    with; the stream \<open>g\<close> is that seed's sample stream (see \<open>Sample_Source\<close>).
\<close>

datatype report_item =
    Heading string
  | ValueLine string real string
  | CountLine string nat
  | SeedLine int
  | StateRow int real

fun py_max :: "int list \<Rightarrow> int result" where
  "py_max [] = Inl ValueError"
| "py_max (k # ks) = Inr (fold max ks k)"

text \<open>
  The format spec \<open>:.4f\<close> of line 163: the value rounded to 4 decimals. Python rounds
  the exact binary value, so ties cannot arise on the decimal grid except for exactly
  representable halves; the model rounds the real value, halves up (HOL's \<open>round\<close>).
\<close>

definition fmt_fixed :: "nat \<Rightarrow> real \<Rightarrow> real" where
  "fmt_fixed digits x = of_int (round (x * 10 ^ digits)) / 10 ^ digits"

definition state_table :: "(int \<times> real) list \<Rightarrow> report_item list result" where
  "state_table probs =
     py_bind (py_max (map fst probs)) (\<lambda>max_state.
       Inr (map (\<lambda>i. StateRow i (fmt_fixed 4 (ledger_get probs i))) [0..max_state]))"

text \<open>
  The printed lines, in two parts: the parameters up to the division of line 143
  (lines 138--141), and the rest of the report up to the table (lines 143--158).
\<close>

definition params_lines :: "real \<Rightarrow> real \<Rightarrow> report_item list" where
  "params_lines arrival_rate service_rate =
     [Heading ''M/M/1 Queue Simulation Results'',
      Heading ''=============================='',
      Heading ''Parameters:'',
      ValueLine ''lambda (arrival rate)'' arrival_rate ''customers/minute'',
      ValueLine ''mu (service rate)'' service_rate ''customers/minute'']"

definition results_lines :: "real \<Rightarrow> real \<Rightarrow> int \<Rightarrow> sim_result \<Rightarrow> report_item list" where
  "results_lines rho simulation_time seed results =
     [ValueLine ''rho (traffic intensity)'' rho '''',
      ValueLine ''Simulation duration'' simulation_time ''minutes'',
      SeedLine seed,
      Heading '''',
      Heading ''Results:'',
      CountLine ''Total customers arrived'' (total_customers results),
      CountLine ''Total customers served'' (completed_customers results),
      ValueLine ''Total time spent in system'' (total_system_time results) ''minutes'',
      ValueLine ''Total time spent in queue'' (total_queue_time results) ''minutes'',
      ValueLine ''Total server busy time'' (server_busy_time results) ''minutes'',
      ValueLine ''Average time in system'' (average_system_time results * 60) ''minutes'',
      ValueLine ''Average time in queue'' (average_queue_time results * 60) ''minutes'',
      ValueLine ''Server utilization'' (server_utilization results) '''',
      ValueLine ''Time-averaged number of customers in system'' (average_system_length results) '''',
      ValueLine ''Time-averaged number of customers in queue'' (average_queue_length results) '''',
      Heading '''',
      Heading ''Proportion of time with n customers in system:'']"

definition run_mm1_simulation ::
  "real \<Rightarrow> real \<Rightarrow> real \<Rightarrow> int \<Rightarrow> rng \<Rightarrow> report_item list \<times> sim_result result" where
  "run_mm1_simulation arrival_rate service_rate simulation_time seed g =
     (case simulate_mm1_queue arrival_rate service_rate simulation_time g of
        Inl e \<Rightarrow> ([], Inl e)
      | Inr results \<Rightarrow>
        (let params = params_lines arrival_rate service_rate
         in case py_div arrival_rate service_rate of
              Inl e \<Rightarrow> (params, Inl e)
            | Inr rho \<Rightarrow>
              (let body = params @ results_lines rho simulation_time seed results
               in case state_table (state_probabilities results) of
                    Inl e \<Rightarrow> (body, Inl e)
                  | Inr rows \<Rightarrow> (body @ rows, Inr results))))"

text \<open>
  The main block: \<open>arrival_rate = 10\<close>, \<open>service_rate = 12\<close>,
  \<open>simulation_time = 10000\<close>, \<open>seed = 42\<close>; \<open>g\<close> is the stream of seed 42.
\<close>

definition main :: "rng \<Rightarrow> report_item list \<times> sim_result result" where
  "main g = run_mm1_simulation 10 12 10000 42 g"

subsection \<open>The population table\<close>

lemma py_max_Inr: "py_max ks = Inr m \<longleftrightarrow> ks \<noteq> [] \<and> m = Max (set ks)"
  by (cases ks) (auto simp: Max.set_eq_fold [symmetric])

lemma state_table_Inr:
  "state_table probs = Inr rows \<longleftrightarrow>
   probs \<noteq> [] \<and>
   rows = map (\<lambda>i. StateRow i (fmt_fixed 4 (ledger_get probs i))) [0..Max (fst ` set probs)]"
  by (auto simp: state_table_def py_max_Inr)

lemma state_table_empty: "state_table [] = Inl ValueError"
  by (simp add: state_table_def)

lemma fmt_fixed_error: "\<bar>fmt_fixed digits x - x\<bar> \<le> 1 / (2 * 10 ^ digits)"
proof -
  have p: "(0::real) < 10 ^ digits" by simp
  have "\<bar>of_int (round (x * 10 ^ digits)) - x * 10 ^ digits\<bar> \<le> 1 / 2"
    by (rule of_int_round_abs_le)
  then have "\<bar>of_int (round (x * 10 ^ digits)) - x * 10 ^ digits\<bar> / 10 ^ digits \<le> (1 / 2) / 10 ^ digits"
    using p by (intro divide_right_mono) simp_all
  moreover have "fmt_fixed digits x - x =
      (of_int (round (x * 10 ^ digits)) - x * 10 ^ digits) / 10 ^ digits"
    using p by (simp add: fmt_fixed_def diff_divide_distrib)
  then have "\<bar>fmt_fixed digits x - x\<bar> =
      \<bar>of_int (round (x * 10 ^ digits)) - x * 10 ^ digits\<bar> / 10 ^ digits"
    by (simp add: abs_divide)
  ultimately show ?thesis by simp
qed

lemma fmt_fixed_zero [simp]: "fmt_fixed digits 0 = 0"
  by (simp add: fmt_fixed_def)

lemma ledger_get_member:
  "distinct (map fst l) \<Longrightarrow> (k, p) \<in> set l \<Longrightarrow> ledger_get l k = p"
  by (simp add: ledger_get_def)

lemma ledger_get_cases:
  "(i, ledger_get l i) \<in> set l \<or> (ledger_get l i = 0 \<and> i \<notin> fst ` set l)"
  by (auto simp: ledger_get_def map_of_eq_None_iff dest: map_of_SomeD split: option.split)

lemma key_in_table_range:
  assumes "(k, p) \<in> set l" "0 \<le> k"
  shows "k \<in> set [0..Max (fst ` set l)]"
proof -
  from assms(1) have "k \<in> fst ` set l" by force
  then have "k \<le> Max (fst ` set l)" by simp
  with assms(2) show ?thesis by simp
qed

subsection \<open>The report\<close>

text \<open>
  Once the simulator has returned, the report can only fail at the division of line 143;
  the table never fails, as the population dict of a result is never empty.
\<close>

lemma run_mm1_simulation_eq:
  "run_mm1_simulation arrival_rate service_rate simulation_time seed g =
     (case simulate_mm1_queue arrival_rate service_rate simulation_time g of
        Inl e \<Rightarrow> ([], Inl e)
      | Inr results \<Rightarrow>
          if service_rate = 0 then (params_lines arrival_rate service_rate, Inl ZeroDivisionError)
          else (params_lines arrival_rate service_rate @
                  results_lines (arrival_rate / service_rate) simulation_time seed results @
                  map (\<lambda>i. StateRow i (fmt_fixed 4 (ledger_get (state_probabilities results) i)))
                    [0..Max (fst ` set (state_probabilities results))],
                Inr results))"
proof (cases "simulate_mm1_queue arrival_rate service_rate simulation_time g")
  case (Inl e)
  then show ?thesis by (simp add: run_mm1_simulation_def)
next
  case (Inr results)
  from simulate_keys(1) [OF Inr] have "state_probabilities results \<noteq> []" by auto
  then have "state_table (state_probabilities results) =
      Inr (map (\<lambda>i. StateRow i (fmt_fixed 4 (ledger_get (state_probabilities results) i)))
        [0..Max (fst ` set (state_probabilities results))])"
    by (simp add: state_table_Inr)
  with Inr show ?thesis by (simp add: run_mm1_simulation_def py_div_def)
qed

subsection \<open>Properties of the report\<close>

text \<open>
  C19. Round trip of the population table: for a dict with distinct non-negative keys,
  every entry \<open>(k, p)\<close> is printed as a row \<open>n = k: q\<close> whose value \<open>q\<close> reads back
  within the \<open>:.4f\<close> rounding error \<open>5e-5\<close> of \<open>p\<close>, and every printed row is either
  such a rounded entry or a zero for a population the dict does not have.
\<close>

theorem table_roundtrip:
  assumes "state_table probs = Inr rows" and "distinct (map fst probs)"
    and "\<forall>k \<in> fst ` set probs. 0 \<le> k"
  shows "(\<forall>(k, p) \<in> set probs. \<exists>q. StateRow k q \<in> set rows \<and> \<bar>q - p\<bar> \<le> 1 / 20000) \<and>
         (\<forall>i q. StateRow i q \<in> set rows \<longrightarrow>
            (\<exists>p. (i, p) \<in> set probs \<and> \<bar>q - p\<bar> \<le> 1 / 20000) \<or>
            (q = 0 \<and> i \<notin> fst ` set probs))"
proof -
  from assms(1) have rows:
    "rows = map (\<lambda>i. StateRow i (fmt_fixed 4 (ledger_get probs i))) [0..Max (fst ` set probs)]"
    by (simp add: state_table_Inr)
  have err: "\<bar>fmt_fixed 4 p - p\<bar> \<le> 1 / 20000" for p
    using fmt_fixed_error [of 4 p] by simp
  have "\<exists>q. StateRow k q \<in> set rows \<and> \<bar>q - p\<bar> \<le> 1 / 20000" if kp: "(k, p) \<in> set probs" for k p
  proof -
    from kp assms(3) have "0 \<le> k" by force
    with kp have "k \<in> set [0..Max (fst ` set probs)]" by (rule key_in_table_range)
    moreover from assms(2) kp have "ledger_get probs k = p" by (rule ledger_get_member)
    ultimately have "StateRow k (fmt_fixed 4 p) \<in> set rows" unfolding rows by force
    with err show ?thesis by blast
  qed
  moreover have "(\<exists>p. (i, p) \<in> set probs \<and> \<bar>q - p\<bar> \<le> 1 / 20000) \<or>
      (q = 0 \<and> i \<notin> fst ` set probs)"
    if "StateRow i q \<in> set rows" for i q
  proof -
    from that have q: "q = fmt_fixed 4 (ledger_get probs i)" unfolding rows by auto
    from ledger_get_cases [of i probs] show ?thesis
    proof
      assume "(i, ledger_get probs i) \<in> set probs"
      with q err show ?thesis by blast
    qed (simp add: q)
  qed
  ultimately show ?thesis by blast
qed

theorem table_roundtrip_witness:
  "state_table [(0, 1/5), (2, 5/2)] = Inr [StateRow 0 (1/5), StateRow 1 0, StateRow 2 (5/2)] \<and>
   (\<exists>q. StateRow 2 q \<in> set [StateRow 0 (1/5), StateRow 1 0, StateRow 2 (5/2)] \<and>
      \<bar>q - 5/2\<bar> \<le> 1 / 20000)"
proof -
  have t: "state_table [(0, 1/5), (2, 5/2)] =
      Inr [StateRow 0 (1/5), StateRow 1 0, StateRow 2 (5/2)]"
    by (simp add: state_table_def ledger_get_def fmt_fixed_def upto.simps)
  from table_roundtrip [OF t]
  have "\<exists>q. StateRow 2 q \<in> set [StateRow 0 (1/5), StateRow 1 0, StateRow 2 (5/2)] \<and>
      \<bar>q - 5/2\<bar> \<le> 1 / 20000"
    by simp
  with t show ?thesis by blast
qed

text \<open>
  C20. The report prints the average time in system and in queue multiplied by 60 and
  labels them "minutes", though the simulator's times are already in minutes (the rates
  are per minute): the printed averages are sixty times the returned ones.
\<close>

theorem average_times_scaled:
  assumes "run_mm1_simulation arrival_rate service_rate simulation_time seed g = (out, Inr r)"
  shows "ValueLine ''Average time in system'' (average_system_time r * 60) ''minutes'' \<in> set out \<and>
         ValueLine ''Average time in queue'' (average_queue_time r * 60) ''minutes'' \<in> set out"
  using assms by (auto simp: run_mm1_simulation_eq results_lines_def split: sum.splits if_splits)

theorem average_times_scaled_witness:
  "ValueLine ''Average time in system'' (45/2) ''minutes'' \<in>
     set (fst (run_mm1_simulation 1 1 2 42 [1/5, 1/2, 1/4, 2, 1/2, 3, 1]))"
proof -
  have "run_mm1_simulation 1 1 2 42 [1/5, 1/2, 1/4, 2, 1/2, 3, 1] =
      (fst (run_mm1_simulation 1 1 2 42 [1/5, 1/2, 1/4, 2, 1/2, 3, 1]),
       Inr (projr (simulate_mm1_queue 1 1 2 [1/5, 1/2, 1/4, 2, 1/2, 3, 1])))"
    by (simp add: run_mm1_simulation_eq example_simulate_served)
  from average_times_scaled [OF this] show ?thesis by (simp add: example_simulate_served)
qed

text \<open>
  C24. A zero service rate always ends the report in \<open>ZeroDivisionError\<close>, but where
  it is raised depends on the horizon: for a positive horizon inside the simulator (the
  first service draw, line 44) and for a zero horizon in its reducer, before anything is
  printed; for a negative horizon the simulator returns, and the report prints the five
  parameter lines before the division \<open>arrival_rate/service_rate\<close> of line 143 raises.
\<close>

theorem zero_service_rate_report:
  assumes "0 < arrival_rate" "g = u # v # rest"
  shows "run_mm1_simulation arrival_rate 0 simulation_time seed g =
           (if simulation_time < 0 then (params_lines arrival_rate 0, Inl ZeroDivisionError)
            else ([], Inl ZeroDivisionError))"
proof -
  consider "simulation_time < 0" | "simulation_time = 0" | "0 < simulation_time" by linarith
  then show ?thesis
    by cases (use assms in \<open>simp_all add: run_mm1_simulation_eq simulate_mm1_queue_def
      engine_eval stats_eval\<close>)
qed

theorem zero_service_rate_report_witness:
  "run_mm1_simulation 1 0 (-1) 42 [1, 1] = (params_lines 1 0, Inl ZeroDivisionError) \<and>
   run_mm1_simulation 1 0 1 42 [1, 1] = ([], Inl ZeroDivisionError)"
  using zero_service_rate_report [of 1 "[1, 1]" 1 1 "[]" "-1" 42]
    zero_service_rate_report [of 1 "[1, 1]" 1 1 "[]" 1 42] by simp

end
