(* ===== verification/Analysis_Driver.thy ===== *)
theory Analysis_Driver
  imports Simulator
begin

section \<open>Analysis driver: \<open>src/mm1_queue_analysis.py\<close>\<close>

text \<open>
  The analysis script runs the simulator on three scenarios and sets the simulated mean
  queue waits beside the theoretical M/M/1 curve:
  \<^item> \<open>scenario\<close> and \<open>scenarios\<close> (lines 6--10): the three dicts with their label,
    arrival rate and service rate. The rates are floats in Python (\<open>9.6\<close>, \<open>10.8\<close>) and
    reals here, as everywhere in the development, so \<open>9.6 / 12\<close> is exactly \<open>4/5\<close>
    (in binary floating point it is \<open>0.7999999999999999\<close>).
  \<^item> \<open>scenario_loop\<close> (lines 15--24): for each scenario, \<open>rho\<close> is appended to
    \<open>rhos\<close>, then the simulator runs and its \<open>average_queue_time\<close> is appended to
    \<open>sim_wqs\<close>. \<open>simulate_mm1_queue\<close> reseeds NumPy with the same seed 42 at each call,
    so every run reads the same sample stream \<open>g\<close>. An exception of a run ends the
    script.
  \<^item> \<open>linspace\<close> is NumPy's \<open>linspace(start, stop, num)\<close> with its default
    \<open>endpoint=True\<close>: no point for \<open>num = 0\<close>, \<open>[start]\<close> for \<open>num = 1\<close>, otherwise
    \<open>start + i * step\<close> for \<open>i < num - 1\<close> with \<open>step = (stop - start) / (num - 1)\<close>,
    and the last point set to \<open>stop\<close> exactly. \<open>rho_curve\<close> is line 28.
  \<^item> \<open>wq_of\<close> and \<open>wq_theoretical\<close> (line 29): the elementwise
    \<open>rho / (mu * (1 - rho))\<close> with \<open>mu = 12\<close> (line 27). On \<open>rho = 1\<close> NumPy gives
    \<open>inf\<close>, HOL's division 0; \<open>rho_curve\<close> stays below 0.99, so this never arises.
  \<^item> \<open>analysis_script\<close>: lines 12--29, returning the four arrays the plot uses. The
    plotting and the final print (lines 31--44) are modelled in \<open>Analysis_Plot\<close>.
\<close>

record scenario =
  sc_label :: string
  sc_arrival_rate :: real
  sc_service_rate :: real

definition scenarios :: "scenario list" where
  "scenarios =
     [\<lparr>sc_label = ''rho = 0.5'', sc_arrival_rate = 6, sc_service_rate = 12\<rparr>,
      \<lparr>sc_label = ''rho = 0.8'', sc_arrival_rate = 9.6, sc_service_rate = 12\<rparr>,
      \<lparr>sc_label = ''rho = 0.9'', sc_arrival_rate = 10.8, sc_service_rate = 12\<rparr>]"

fun scenario_loop ::
  "real \<Rightarrow> rng \<Rightarrow> scenario list \<Rightarrow> real list \<times> real list \<Rightarrow> (real list \<times> real list) result"
where
  "scenario_loop simulation_time g [] acc = Inr acc"
| "scenario_loop simulation_time g (sc # scs) (rhos, sim_wqs) =
     py_bind (py_div (sc_arrival_rate sc) (sc_service_rate sc)) (\<lambda>rho.
       py_bind (simulate_mm1_queue (sc_arrival_rate sc) (sc_service_rate sc) simulation_time g)
         (\<lambda>results.
            scenario_loop simulation_time g scs
              (rhos @ [rho], sim_wqs @ [average_queue_time results])))"

definition linspace :: "real \<Rightarrow> real \<Rightarrow> nat \<Rightarrow> real list" where
  "linspace start stop num =
     (if num = 0 then []
      else if num = 1 then [start]
      else (let step = (stop - start) / real (num - 1)
            in map (\<lambda>i. start + real i * step) [0..<num - 1] @ [stop]))"

definition rho_curve :: "real list" where
  "rho_curve = linspace 0.01 0.99 100"

definition wq_of :: "real \<Rightarrow> real \<Rightarrow> real" where
  "wq_of mu rho = rho / (mu * (1 - rho))"

definition wq_theoretical :: "real \<Rightarrow> real list \<Rightarrow> real list" where
  "wq_theoretical mu rhos = map (wq_of mu) rhos"

definition analysis_script ::
  "rng \<Rightarrow> (real list \<times> real list \<times> real list \<times> real list) result" where
  "analysis_script g =
     py_bind (scenario_loop 20000 g scenarios ([], [])) (\<lambda>(rhos, sim_wqs).
       Inr (rhos, sim_wqs, rho_curve, wq_theoretical 12 rho_curve))"

subsection \<open>\<open>linspace\<close>\<close>

lemma linspace_length [simp]: "length (linspace start stop num) = num"
  by (simp add: linspace_def Let_def)

lemma linspace_ends:
  "2 \<le> num \<Longrightarrow> hd (linspace start stop num) = start \<and> last (linspace start stop num) = stop"
  by (simp add: linspace_def Let_def hd_append upt_rec)

lemma linspace_points:
  assumes "2 \<le> num" "start < stop"
  obtains step where "0 < step" "start + real (num - 1) * step = stop"
    "linspace start stop num = map (\<lambda>i. start + real i * step) [0..<num - 1] @ [stop]"
proof -
  let ?step = "(stop - start) / real (num - 1)"
  have "0 < ?step" "start + real (num - 1) * ?step = stop"
    "linspace start stop num = map (\<lambda>i. start + real i * ?step) [0..<num - 1] @ [stop]"
    using assms by (simp_all add: linspace_def Let_def)
  then show ?thesis by (rule that)
qed

lemma points_sorted:
  "0 < step \<Longrightarrow> sorted_wrt (<) (map (\<lambda>i. a + real i * step) [0..<k])"
  unfolding sorted_wrt_map by (rule sorted_wrt_mono_rel [OF _ sorted_wrt_upt]) simp

lemma points_range:
  "0 < step \<Longrightarrow> i < k \<Longrightarrow> a \<le> a + real i * step \<and> a + real i * step < a + real k * step"
  by simp

lemma linspace_sorted:
  assumes "start < stop"
  shows "sorted_wrt (<) (linspace start stop num)"
proof (cases "2 \<le> num")
  case True
  from linspace_points [OF True assms] obtain step where "0 < step"
    "start + real (num - 1) * step = stop"
    "linspace start stop num = map (\<lambda>i. start + real i * step) [0..<num - 1] @ [stop]" .
  then show ?thesis
    using points_range [of step _ "num - 1" start]
    by (auto simp: sorted_wrt_append points_sorted)
next
  case False
  then show ?thesis by (auto simp: linspace_def numeral_2_eq_2 not_le less_Suc_eq)
qed

lemma linspace_range:
  assumes "start < stop" "x \<in> set (linspace start stop num)"
  shows "start \<le> x \<and> x \<le> stop"
proof (cases "2 \<le> num")
  case True
  from linspace_points [OF True assms(1)] obtain step where "0 < step"
    "start + real (num - 1) * step = stop"
    "linspace start stop num = map (\<lambda>i. start + real i * step) [0..<num - 1] @ [stop]" .
  with assms(2) show ?thesis
    using points_range [of step _ "num - 1" start] assms(1) by fastforce
next
  case False
  with assms show ?thesis
    by (auto simp: linspace_def numeral_2_eq_2 not_le less_Suc_eq split: if_splits)
qed

subsection \<open>The theoretical curve\<close>

lemma wq_of_strict_mono:
  assumes "0 < mu" "0 \<le> x" "x < y" "y < 1"
  shows "0 \<le> wq_of mu x \<and> wq_of mu x < wq_of mu y"
proof -
  from assms have "x * (1 - y) < y * (1 - x)" by (simp add: algebra_simps)
  with assms show ?thesis
    by (simp add: wq_of_def field_simps)
qed

lemma wq_of_pos: "0 < mu \<Longrightarrow> 0 < x \<Longrightarrow> x < 1 \<Longrightarrow> 0 < wq_of mu x"
  by (simp add: wq_of_def)

lemma rho_curve_range: "x \<in> set rho_curve \<Longrightarrow> 1/100 \<le> x \<and> x \<le> 99/100"
  using linspace_range [of "1/100" "99/100" x 100] by (simp add: rho_curve_def)

lemma wq_theoretical_sorted:
  assumes "0 < mu" "sorted_wrt (<) rhos" "\<forall>x \<in> set rhos. 0 \<le> x \<and> x < 1"
  shows "sorted_wrt (<) (wq_theoretical mu rhos)"
  unfolding wq_theoretical_def sorted_wrt_map
  using assms by (auto intro: sorted_wrt_mono_rel [OF _ assms(2)] dest: wq_of_strict_mono [OF assms(1)])

subsection \<open>Properties of the analysis\<close>

text \<open>
  C21. The theoretical curve of line 29 has 100 points, all positive, and is strictly
  increasing: the mean queue wait of an M/M/1 queue grows with the utilization over the
  whole plotted range \<open>[0.01, 0.99]\<close>.
\<close>

theorem wq_curve_increasing:
  "length (wq_theoretical 12 rho_curve) = 100 \<and> sorted_wrt (<) (wq_theoretical 12 rho_curve) \<and>
   list_all (\<lambda>w. 0 < w) (wq_theoretical 12 rho_curve)"
proof -
  have r: "\<forall>x \<in> set rho_curve. 0 \<le> x \<and> x < 1" using rho_curve_range by fastforce
  have "sorted_wrt (<) rho_curve" by (simp add: rho_curve_def linspace_sorted)
  with r have "sorted_wrt (<) (wq_theoretical 12 rho_curve)" by (simp add: wq_theoretical_sorted)
  moreover have "list_all (\<lambda>w. 0 < w) (wq_theoretical 12 rho_curve)"
    using rho_curve_range by (fastforce simp: wq_theoretical_def list_all_iff intro: wq_of_pos)
  ultimately show ?thesis by (simp add: wq_theoretical_def rho_curve_def)
qed

text \<open>
  C22. The theoretical mean queue wait \<open>rho / (mu * (1 - rho))\<close> diverges to infinity as
  \<open>rho\<close> approaches 1 from below, for every positive service rate: the claim printed at
  line 44, for the theoretical curve.
\<close>

theorem wq_diverges:
  assumes "0 < mu"
  shows "filterlim (wq_of mu) at_top (at_left 1)"
proof -
  have lim: "((\<lambda>rho. mu * (1 - rho)) \<longlongrightarrow> 0) (at_left 1)"
    by (auto intro!: tendsto_eq_intros)
  have pos: "eventually (\<lambda>rho. 0 < mu * (1 - rho)) (at_left (1::real))"
    by (rule eventually_at_leftI [of 0]) (simp_all add: assms)
  have "filterlim (\<lambda>rho. rho * inverse (mu * (1 - rho))) at_top (at_left 1)"
    by (rule filterlim_tendsto_pos_mult_at_top [OF _ _ filterlim_inverse_at_top [OF lim pos]])
       (auto intro!: tendsto_eq_intros)
  then show ?thesis unfolding wq_of_def divide_inverse by assumption
qed

theorem wq_diverges_witness: "filterlim (wq_of 12) at_top (at_left 1)"
  using wq_diverges [of 12] by simp

end
