(* ===== verification/Analysis_Plot.thy ===== *)
theory Analysis_Plot
  imports Analysis_Driver
begin

section \<open>Analysis driver: the figure and the final print\<close>

text \<open>
  Lines 31--44 of \<open>src/mm1_queue_analysis.py\<close> draw one matplotlib figure from the arrays
  the script computed and print an observation. The model keeps the display as the list
  of calls made, each a \<open>plot_cmd\<close> with the data and the label it passes (the styling
  keywords \<open>color\<close>, \<open>zorder\<close>, \<open>textcoords\<close>, \<open>xytext\<close> and \<open>ha\<close> are not kept; labels
  are ASCII renderings, \<open>rho\<close> for the Greek letter):
  \<^item> \<open>mpl_plot\<close> and \<open>mpl_scatter\<close> (lines 32, 33): matplotlib raises \<open>ValueError\<close>
    when the x and y data differ in length;
  \<^item> \<open>annotate_loop\<close> (lines 34--35): \<open>for i, scenario in enumerate(scenarios)\<close>, one
    annotation with the scenario's label at \<open>(rhos[i], sim_wqs[i])\<close>; a subscript past
    the end of either list raises \<open>IndexError\<close> (\<open>py_index\<close>);
  \<^item> \<open>finish_figure\<close> (lines 36--44): axis labels, title, legend, grid, layout,
    \<open>plt.show()\<close> and the printed observation;
  \<^item> \<open>plot_figure\<close> (lines 31--44) and \<open>analysis_main\<close>, the whole script: the
    computation of \<open>analysis_script\<close> followed by the figure.
\<close>

datatype plot_cmd =
    Figure real real
  | PlotCurve "real list" "real list" string
  | Scatter "real list" "real list" string
  | Annotate string real real
  | XLabel string
  | YLabel string
  | Title string
  | Legend
  | Grid bool
  | TightLayout
  | ShowFigure
  | PrintLine string

definition mpl_plot :: "real list \<Rightarrow> real list \<Rightarrow> string \<Rightarrow> plot_cmd result" where
  "mpl_plot xs ys label =
     (if length xs = length ys then Inr (PlotCurve xs ys label) else Inl ValueError)"

definition mpl_scatter :: "real list \<Rightarrow> real list \<Rightarrow> string \<Rightarrow> plot_cmd result" where
  "mpl_scatter xs ys label =
     (if length xs = length ys then Inr (Scatter xs ys label) else Inl ValueError)"

fun annotate_loop ::
  "scenario list \<Rightarrow> nat \<Rightarrow> real list \<Rightarrow> real list \<Rightarrow> plot_cmd list result" where
  "annotate_loop [] i rhos sim_wqs = Inr []"
| "annotate_loop (sc # scs) i rhos sim_wqs =
     py_bind (py_index rhos i) (\<lambda>x.
       py_bind (py_index sim_wqs i) (\<lambda>y.
         py_bind (annotate_loop scs (Suc i) rhos sim_wqs) (\<lambda>rest.
           Inr (Annotate (sc_label sc) x y # rest))))"

definition finish_figure :: "plot_cmd list" where
  "finish_figure =
     [XLabel ''Utilization $rho$'',
      YLabel ''Average waiting time in queue $W_q$ (minutes)'',
      Title ''M/M/1 Queue: Simulated vs Theoretical $W_q$'',
      Legend, Grid True, TightLayout, ShowFigure,
      PrintLine (''Observation: As utilization (rho) approaches 1, the average waiting time '' @
        ''in the queue ($W_q$) increases rapidly, diverging to infinity. This matches the '' @
        ''theoretical prediction for M/M/1 queues, where the system becomes unstable as rho -> 1.'')]"

definition plot_figure ::
  "real list \<Rightarrow> real list \<Rightarrow> real list \<Rightarrow> real list \<Rightarrow> plot_cmd list result" where
  "plot_figure rhos sim_wqs curve wq =
     py_bind (mpl_plot curve wq ''Theoretical $W_q$'') (\<lambda>line.
       py_bind (mpl_scatter rhos sim_wqs ''Simulated $W_q$'') (\<lambda>points.
         py_bind (annotate_loop scenarios 0 rhos sim_wqs) (\<lambda>labels.
           Inr ([Figure 8 5, line, points] @ labels @ finish_figure))))"

definition analysis_main :: "rng \<Rightarrow> plot_cmd list result" where
  "analysis_main g =
     py_bind (analysis_script g) (\<lambda>(rhos, sim_wqs, curve, wq). plot_figure rhos sim_wqs curve wq)"

subsection \<open>The calls and when they raise\<close>

lemma mpl_Inr [result_iff]:
  "mpl_plot xs ys l = Inr c \<longleftrightarrow> length xs = length ys \<and> c = PlotCurve xs ys l"
  "mpl_scatter xs ys l = Inr c \<longleftrightarrow> length xs = length ys \<and> c = Scatter xs ys l"
  by (auto simp: mpl_plot_def mpl_scatter_def)

text \<open>
  The annotation loop succeeds exactly when it has nothing to annotate or both lists
  reach the last index, and then annotates the \<open>k\<close>-th scenario at the \<open>k\<close>-th
  points, as \<open>enumerate\<close> numbers them; its only exception is \<open>IndexError\<close>.
\<close>

lemma annotate_loop_Inr [result_iff]:
  "annotate_loop scs i rhos sim_wqs = Inr anns \<longleftrightarrow>
   (scs = [] \<or> i + length scs \<le> length rhos \<and> i + length scs \<le> length sim_wqs) \<and>
   anns = map (\<lambda>(k, sc). Annotate (sc_label sc) (rhos ! k) (sim_wqs ! k)) (enumerate i scs)"
proof (induction scs arbitrary: i anns)
  case Nil
  then show ?case by auto
next
  case (Cons sc scs)
  then show ?case by (auto simp: enumerate_simps)
qed

lemma annotate_loop_Inl: "annotate_loop scs i rhos sim_wqs = Inl e \<Longrightarrow> e = IndexError"
proof (induction scs arbitrary: i)
  case Nil
  then show ?case by simp
next
  case (Cons sc scs)
  then show ?case
    by (auto simp: py_index_def py_bind_eq_Inl split: if_splits)
qed

subsection \<open>Properties of the figure\<close>

text \<open>
  C23. The figure of lines 31--44, for any arrays: with a curve and a set of points of
  matching lengths and at least one point per scenario, the figure is the curve, the
  points, one annotation per scenario at that scenario's point (\<open>enumerate\<close> order),
  the labels and the printed observation; with fewer points than scenarios the
  annotation loop raises \<open>IndexError\<close>; with mismatched lengths matplotlib raises
  \<open>ValueError\<close>.
\<close>

theorem plot_figure_behaviour:
  "plot_figure rhos sim_wqs curve wq =
     (if length curve = length wq \<and> length rhos = length sim_wqs then
        (if length scenarios \<le> length rhos then
           Inr ([Figure 8 5, PlotCurve curve wq ''Theoretical $W_q$'',
                 Scatter rhos sim_wqs ''Simulated $W_q$''] @
                map (\<lambda>(k, sc). Annotate (sc_label sc) (rhos ! k) (sim_wqs ! k))
                  (enumerate 0 scenarios) @ finish_figure)
         else Inl IndexError)
      else Inl ValueError)"
proof (cases "annotate_loop scenarios 0 rhos sim_wqs")
  case (Inl e)
  with annotate_loop_Inl have "e = IndexError" by blast
  moreover from Inl have "\<not> (length scenarios \<le> length rhos \<and> length scenarios \<le> length sim_wqs)"
    using annotate_loop_Inr [of scenarios 0 rhos sim_wqs] by (auto simp: scenarios_def)
  ultimately show ?thesis using Inl
    by (auto simp: plot_figure_def mpl_plot_def mpl_scatter_def)
next
  case (Inr anns)
  then show ?thesis using annotate_loop_Inr [of scenarios 0 rhos sim_wqs]
    by (auto simp: plot_figure_def mpl_plot_def mpl_scatter_def scenarios_def)
qed

end
