(* ===== verification/Spec2Isabelle.thy ===== *)
theory Spec2Isabelle
  imports Console_Report Analysis_Plot
begin

text \<open>
  \<^bold>\<open>A verification model of the M/M/1 queue simulator\<close>
  (\<open>src/mm1_queue_simulation.py\<close>, \<open>src/mm1_queue_analysis.py\<close>).

  \<^bold>\<open>The program.\<close> \<open>simulate_mm1_queue(arrival_rate, service_rate,
  simulation_time, seed)\<close> (lines 5--128) is a discrete-event simulation of a
  single-server FIFO queue. It keeps its state in local variables (the clock, the server
  flag, the pending arrival and departure times, the waiting line \<open>queue\<close>, the
  customer records \<open>customer_stats\<close>, the population count \<open>current_state\<close> and the
  dict \<open>state_time\<close> from population to accumulated time), runs an event loop while
  \<open>current_time < simulation_time\<close> (lines 27--75), clips the ledger with a final
  update (line 78) and reduces the trace to a result dict (lines 80--128). Every duration
  is drawn with \<open>np.random.exponential(scale=1.0/rate)\<close> from one seeded generator.
  Two drivers call it: \<open>run_mm1_simulation\<close> (lines 130--165, called by the
  \<open>__main__\<close> block, lines 167--175) runs it once and prints a report with a table of
  the population probabilities; \<open>mm1_queue_analysis.py\<close> runs it on three scenarios
  with the same seed and plots the mean queue waits against the theoretical curve
  \<open>rho / (mu * (1 - rho))\<close> sampled by \<open>np.linspace\<close>.

  \<^bold>\<open>Theories and what they model.\<close>
  \<^item> \<open>Prelude\<close>: Python exceptions as the values of \<open>py_error\<close>, results as
    \<open>py_error + 'a\<close> with \<open>py_bind\<close>; \<open>py_div\<close> (float division raising on 0);
    \<open>etime\<close>, a time or \<open>float('inf')\<close>, as a \<open>linorder\<close> instance.
  \<^item> \<open>Sample_Source\<close>: \<open>exponential_draw\<close>, one NumPy draw. The seeded stream is
    a list of standard exponential variates (\<open>rng\<close>) consumed in call order; a draw
    returns \<open>scale * u\<close>, raises \<open>ZeroDivisionError\<close> for a zero rate and
    \<open>ValueError\<close> for a negative scale. \<open>valid_rng\<close>: every variate is
    non-negative, as those of a real generator are.
  \<^item> \<open>Trace_Recorder\<close>: the \<open>customer\<close> record (the triples of
    \<open>customer_stats\<close>) and the \<open>state_time\<close> dict as an insertion-ordered
    association list with \<open>ledger_get\<close> (\<open>dict.get(n, 0)\<close>) and \<open>ledger_add\<close>
    (\<open>d[n] = d.get(n, 0) + x\<close>).
  \<^item> \<open>Sim_State\<close>: the record \<open>sim_state\<close> of the local variables and
    \<open>init_state\<close> (lines 10--24).
  \<^item> \<open>Queueing_Discipline\<close>: \<open>admit_customer\<close> (start service or join the line,
    lines 40--49) and \<open>release_server\<close> (\<open>popleft\<close> or go idle, lines 65--75).
  \<^item> \<open>Event_Clock\<close>: \<open>advance_clock\<close> (the ledger update and clock advance
    shared by both branches), \<open>process_arrival\<close>, \<open>process_departure\<close>,
    \<open>sim_step\<close> (event selection, ties to the arrival), \<open>sim_loop\<close> (the while
    loop, a terminating \<open>function\<close>), \<open>finish_ledger\<close> (line 78) and
    \<open>run_engine\<close> (lines 10--78); \<open>sim_step_cases\<close>, the four transitions.
  \<^item> \<open>Engine_Invariants\<close>: the invariants of the loop (\<open>population_inv\<close>,
    \<open>ledger_inv\<close>, \<open>clock_inv\<close>, \<open>trace_inv\<close>, \<open>ledger_nonneg\<close>), each
    preserved by \<open>sim_step\<close>; the inductive \<open>reachable\<close> states of a run and the
    fact that \<open>sim_loop\<close> returns a reachable state past the horizon; the abstract
    FIFO list \<open>in_system\<close> that the discipline refines (C17).
  \<^item> \<open>Statistics\<close>: the reducer (lines 80--128): \<open>sim_result\<close> (the result
    dict's keys), \<open>count_completed\<close>, \<open>collect_stats\<close> (the collecting loop),
    \<open>partial_busy\<close>, \<open>py_mean\<close>, \<open>time_weighted\<close>, \<open>reduce_stats\<close>; the
    reference \<open>completed_stats\<close> and the ledger sums.
  \<^item> \<open>Littles_Law\<close>: the sample-path form of Little's law as an invariant.
  \<^item> \<open>Run_Completes\<close>: how many samples a run consumes (\<open>supply_inv\<close>) and that
    a long enough stream lets every step and the whole loop succeed.
  \<^item> \<open>Simulator\<close>: \<open>simulate_mm1_queue\<close> as engine then reducer; the facts the
    drivers rely on (the population dict of a result keeps the key 0, so it is never
    empty); \<open>result_wf\<close>, the well-formedness of a result; two evaluated runs.
  \<^item> \<open>Console_Report\<close>: the console driver. \<open>report_item\<close> is one printed line
    (label, value, unit); \<open>params_lines\<close> and \<open>results_lines\<close> are the
    prints of lines 138--159, \<open>py_max\<close>, \<open>fmt_fixed\<close> (\<open>:.4f\<close>) and
    \<open>state_table\<close> the table of lines 160--163; \<open>run_mm1_simulation\<close> returns the printed lines with the outcome, so an
    exception keeps the lines printed before it; \<open>main\<close> is the \<open>__main__\<close> block.
  \<^item> \<open>Analysis_Driver\<close>: the \<open>scenario\<close> record and \<open>scenarios\<close>, the
    \<open>scenario_loop\<close> of lines 18--24, NumPy's \<open>linspace\<close>, \<open>rho_curve\<close>,
    \<open>wq_of\<close> and \<open>wq_theoretical\<close> (lines 27--29) and \<open>analysis_script\<close>.
  \<^item> \<open>Analysis_Plot\<close>: the figure of lines 31--44 as the list of matplotlib calls
    (\<open>plot_cmd\<close>) with their data and labels: \<open>mpl_plot\<close>, \<open>mpl_scatter\<close>
    (\<open>ValueError\<close> on mismatched lengths), \<open>annotate_loop\<close> (\<open>enumerate\<close> with
    the subscripts \<open>rhos[i]\<close>, \<open>sim_wqs[i]\<close>, \<open>IndexError\<close> past the end),
    \<open>finish_figure\<close>, \<open>plot_figure\<close>, and \<open>analysis_main\<close>, the whole script.
  \<^item> \<open>Spec2Isabelle\<close> (this theory): the properties that span the components.

  \<^bold>\<open>What is proved.\<close> The ledger sums exactly to the horizon (C1) and the
  probabilities to 1 (C2); the population count matches the line and the server (C3);
  records satisfy arrival \<open><=\<close> start \<open><=\<close> departure (C4); service is FIFO with
  non-overlapping intervals (C5); utilization is at most 1 (C6); invalid parameters
  fail as Python does (C7, C8, C10) and a negative horizon is accepted (C9); the exact
  outcome when the first arrival is after the horizon (C11); all state probabilities
  but the one of the final population are non-negative (C12); Little's law holds on
  the sample path (C13); \<open>L_q = L - (1 - p_0)\<close> (C14); each step is one event, an
  arrival adding one to the population or a departure taking one (C15); with
  interarrival samples at least \<open>gap\<close>, \<open>2 * ceiling (h / gap) + 3\<close> samples let the
  run complete with a result (C16); the discipline refines an abstract FIFO queue
  (C17); every result is well formed (C18). Of the console driver: the printed table
  reads back as the dict up to the \<open>:.4f\<close> rounding (C19); the printed average times
  are 60 times the returned ones (C20); a zero service rate always ends the report in
  \<open>ZeroDivisionError\<close>, after the parameter lines exactly when the horizon is negative
  (C24). Of the analysis driver: the theoretical curve is positive and strictly
  increasing (C21) and diverges as \<open>rho\<close> tends to 1 (C22); the figure's calls on every
  input, errors included (C23). Little's law carries over to the reported
  \<open>average_system_length\<close> only up to the overshoot of the last event (C25).

  \<^bold>\<open>What the code gets wrong.\<close> The loop condition is tested before the event
  is chosen, so the last event processed always lies at or after the horizon. Its whole
  interval goes to the population before it, and line 78 subtracts the overshoot from
  the population after it: the sum stays exact, but single entries can be negative or
  exceed the horizon (\<open>state_probability_out_of_range\<close>), and when that last event is
  a departure starting the next service the busy time becomes negative
  (\<open>utilization_negative\<close>). No parameter is validated (C7--C10). The report prints
  the average times multiplied by 60 and labelled minutes, though they already are in
  minutes (C20); the main block's comments give \<open>lambda = 4\<close> and a horizon of 20000,
  its code 10 and 10000.

  \<^bold>\<open>Modelling choices.\<close> Times are \<open>real\<close>: the model does not round as
  floats do, so "exact" in C1 and C2 is exact in the reals. Python's unbounded ints are
  \<open>int\<close>, lengths \<open>nat\<close>. No fuel is needed: every step consumes a sample or
  cancels the pending departure, so \<open>sim_loop\<close> terminates by a measure; a stream
  too short for the run ends in \<open>SamplesExhausted\<close>, which the real generator never
  reaches, and C16 bounds the length that suffices: fewer than \<open>h / gap\<close> customers
  arrive before the horizon, each costs at most two samples. Both drivers pass their
  seed to \<open>simulate_mm1_queue\<close>, which reseeds NumPy, so all runs of the analysis read
  the same stream \<open>g\<close>. The report's value lines keep the exact value their f-string
  formats; the table rows, which C19 reads back, hold the value rounded by \<open>:.4f\<close>
  (\<open>fmt_fixed\<close>, half up on exact ties where Python rounds the binary value). The float
  literals 9.6 and 10.8 of the analysis are the reals 48/5 and 54/5. The guard
  \<open>if xs else 0\<close> of \<open>py_mean\<close> (lines 104--105) is kept, but HOL's \<open>0 / 0 = 0\<close>
  makes it invisible: the \<open>nan\<close> that \<open>np.mean([])\<close> would give is not modelled.
  Output is a value: the report is
  the list of printed lines returned with the outcome, the figure the list of plotting
  calls, so an exception after some output keeps the output made before it.

  \<^bold>\<open>Not modelled.\<close> The generator's algorithm and seeding (lines 6--8; the stream
  is the model's input); the rendering of the figure and the styling keywords of the
  plotting calls (colours, \<open>zorder\<close>, text offsets), which carry no data; the float
  formatting of the report's value lines; IEEE rounding of the arithmetic; and the
  statistical
  claims of the spec (convergence of the utilization to \<open>rho\<close>, Little's law in
  expectation, monotonicity of the simulated waits in \<open>rho\<close>), which are about
  distributions, not single runs.
\<close>

section \<open>Lemmas across the engine and the reducer\<close>

lemma finish_ledger_keeps [simp]:
  "customer_stats (finish_ledger h s) = customer_stats s"
  "partial_busy h' (finish_ledger h s) = partial_busy h' s"
  by (auto simp: finish_ledger_def partial_busy_def fun_eq_iff)

text \<open>
  The busy time the reducer computes from a state the loop reaches is at most the
  horizon: the completed services do not overlap and lie in \<open>[0, h]\<close>; when a service
  runs past the horizon, the completed ones end before it starts and its partial
  interval is \<open>h - server_start_time\<close>.
\<close>

lemma busy_time_le_horizon:
  assumes r: "reachable arrival_rate service_rate h g s" and v: "valid_rng g" and h: "0 \<le> h"
  shows "partial_busy h s (snd (snd (completed_stats h (customer_stats s)))) \<le> h"
proof -
  let ?cs = "customer_stats s"
  let ?done = "filter (\<lambda>c. c_departure c \<le> h) ?cs"
  from reachable_engine_inv [OF r v] have t: "trace_inv s" and p: "population_inv s"
    by (simp_all add: engine_inv_def)
  then have sw: "sorted_wrt (\<lambda>c c'. c_departure c \<le> c_start c') ?done"
    by (simp add: trace_inv_def sorted_wrt_filter)
  from t have in_cs: "\<forall>c \<in> set ?done. 0 \<le> c_start c \<and> c_start c \<le> c_departure c"
    by (force simp: trace_inv_def)
  show ?thesis
  proof (cases "server_busy s \<and> Fin h < next_departure_time s")
    case True
    with t have ne: "?cs \<noteq> []" and st: "c_start (last ?cs) = server_start_time s"
      and late: "h < c_departure (last ?cs)"
      by (auto simp: trace_inv_def)
    have before: "\<forall>c \<in> set ?done. c_departure c \<le> server_start_time s"
    proof
      fix c assume c: "c \<in> set ?done"
      with late have "c \<noteq> last ?cs" by auto
      with c have "c \<in> set (butlast ?cs)" by (auto dest: in_set_butlast_or_last)
      with t st show "c_departure c \<le> server_start_time s"
        by (auto simp: trace_inv_def dest: sorted_wrt_butlast_last)
    qed
    from ne have "last ?cs \<in> set ?cs" by simp
    with t have "0 \<le> c_start (last ?cs)"
      unfolding trace_inv_def by (meson order_trans)
    with st have "0 \<le> server_start_time s" by simp
    with sw in_cs before have "sum_list (map (\<lambda>c. c_departure c - c_start c) ?done)
        \<le> server_start_time s - 0"
      by (intro service_sum_le) auto
    with True show ?thesis by (simp add: partial_busy_def completed_busy)
  next
    case False
    from sw in_cs h have "sum_list (map (\<lambda>c. c_departure c - c_start c) ?done) \<le> h - 0"
      by (intro service_sum_le) auto
    with False show ?thesis by (simp only: partial_busy_def completed_busy if_not_P if_False diff_0_right)
  qed
qed

section \<open>Properties\<close>

text \<open>The same run after its first two events, as a reachable state.\<close>

lemma example_reachable:
  "reachable 1 1 1 [1/5, 3/10, 14/5, 5, 1] \<lparr>current_time = 1/2, server_busy = True,
     server_start_time = 1/5, next_departure_time = Fin 3, queue = [1/2],
     customer_stats = [\<lparr>c_arrival = 1/5, c_start = 1/5, c_departure = 3\<rparr>],
     last_event_time = 1/2, state_time = [(0, 1/5), (1, 3/10)], current_state = 2,
     next_arrival_time = 11/2, rng = [1]\<rparr>"
    (is "reachable 1 1 1 ?g ?s2")
proof -
  let ?s0 = "\<lparr>current_time = 0, server_busy = False, server_start_time = 0,
      next_departure_time = Infinity, queue = [], customer_stats = [],
      last_event_time = 0, state_time = [(0, 0)], current_state = 0,
      next_arrival_time = 1/5, rng = [3/10, 14/5, 5, 1]\<rparr>"
  let ?s1 = "\<lparr>current_time = 1/5, server_busy = True, server_start_time = 1/5,
      next_departure_time = Fin 3, queue = [],
      customer_stats = [\<lparr>c_arrival = 1/5, c_start = 1/5, c_departure = 3\<rparr>],
      last_event_time = 1/5, state_time = [(0, 1/5)], current_state = 1,
      next_arrival_time = 1/2, rng = [5, 1]\<rparr> :: sim_state"
  have "reachable 1 1 1 ?g ?s0"
    by (rule reachable.start) (simp add: engine_eval)
  moreover have "current_time ?s0 < 1" by simp
  moreover have "sim_step 1 1 ?s0 = Inr ?s1" by (simp add: engine_eval)
  ultimately have "reachable 1 1 1 ?g ?s1" by (rule reachable.step)
  moreover have "current_time ?s1 < 1" by simp
  moreover have "sim_step 1 1 ?s1 = Inr ?s2" by (simp add: engine_eval)
  ultimately show ?thesis by (rule reachable.step)
qed

text \<open>
  C1. Ledger-sum invariant: when the engine returns, the entries of the population
  ledger \<open>state_time\<close> sum to the horizon exactly, its keys are distinct and none is
  negative, whatever the samples.
\<close>

theorem ledger_sums_to_horizon:
  assumes "run_engine arrival_rate service_rate simulation_time g = Inr s"
  shows "ledger_total (state_time s) = simulation_time \<and> ledger_ok (state_time s) \<and>
         (\<forall>n \<in> fst ` set (state_time s). 0 \<le> n)"
proof -
  from run_engine_Inr [OF assms] obtain s1 where
    r: "reachable arrival_rate service_rate simulation_time g s1"
    and s: "s = finish_ledger simulation_time s1" by blast
  from reachable_count_inv [OF r] have "ledger_inv s1" "population_inv s1" by auto
  then show ?thesis unfolding s by (blast dest: finish_ledger_inv)
qed

theorem ledger_sums_to_horizon_witness:
  "\<exists>s. run_engine 1 1 1 [1/5, 3, 14/5] = Inr s \<and> ledger_total (state_time s) = 1"
proof -
  have "run_engine 1 1 1 [1/5, 3, 14/5] = Inr (finish_ledger 1 \<lparr>current_time = 3,
      server_busy = False, server_start_time = 1/5, next_departure_time = Infinity,
      queue = [], customer_stats = [\<lparr>c_arrival = 1/5, c_start = 1/5, c_departure = 3\<rparr>],
      last_event_time = 3, state_time = [(0, 1/5), (1, 14/5)], current_state = 0,
      next_arrival_time = 16/5, rng = []\<rparr>)"
    by (simp add: engine_eval)
  then show ?thesis using ledger_sums_to_horizon by blast
qed

text \<open>
  C2. Probability-sum invariant: in every result \<open>simulate_mm1_queue\<close> returns, the
  values of \<open>state_probabilities\<close> sum to 1.
\<close>

theorem state_probabilities_sum_one:
  assumes "simulate_mm1_queue arrival_rate service_rate simulation_time g = Inr r"
  shows "sum_list (map snd (state_probabilities r)) = 1"
proof -
  from assms obtain s where e: "run_engine arrival_rate service_rate simulation_time g = Inr s"
    and red: "reduce_stats simulation_time s = Inr r"
    by (auto simp: simulate_mm1_queue_def)
  from run_engine_Inr [OF e] obtain s1 where
    r: "reachable arrival_rate service_rate simulation_time g s1"
    and s: "s = finish_ledger simulation_time s1" by blast
  from reachable_count_inv [OF r] finish_ledger_inv
  have "ledger_total (state_time s) = simulation_time" unfolding s by blast
  moreover have "sum_list (map snd (state_probabilities r)) =
      ledger_total (state_time s) / simulation_time"
    unfolding reduce_stats_Inr(12) [OF red] by (rule sum_probabilities)
  ultimately show ?thesis using reduce_stats_Inr(1) [OF red] by simp
qed

theorem state_probabilities_sum_one_witness:
  "\<exists>r. simulate_mm1_queue 1 1 1 [1/5, 3/10, 14/5, 5, 1] = Inr r \<and>
       sum_list (map snd (state_probabilities r)) = 1"
proof -
  have "\<exists>r. simulate_mm1_queue 1 1 1 [1/5, 3/10, 14/5, 5, 1] = Inr r"
    by (simp add: simulate_mm1_queue_def example_run_engine stats_eval)
  then show ?thesis using state_probabilities_sum_one by blast
qed

text \<open>
  C3. Population consistency: in every state the loop reaches, \<open>current_state\<close> is the
  number of waiting customers plus the one in service, hence never negative; a
  departure is pending exactly when the server is busy; an idle server has an empty
  line.
\<close>

theorem population_consistent:
  assumes "reachable arrival_rate service_rate simulation_time g s"
  shows "current_state s = int (length (queue s)) + (if server_busy s then 1 else 0) \<and>
         0 \<le> current_state s \<and>
         (next_departure_time s = Infinity \<longleftrightarrow> \<not> server_busy s) \<and>
         (\<not> server_busy s \<longrightarrow> queue s = [])"
  using reachable_count_inv [OF assms] by (auto simp: population_inv_def)

theorem population_consistent_witness:
  "\<exists>s. reachable 1 1 1 [1/5, 3/10, 14/5, 5, 1] s \<and> current_state s = 2 \<and>
       current_state s = int (length (queue s)) + (if server_busy s then 1 else 0)"
  using example_reachable population_consistent [OF example_reachable] by auto

text \<open>
  C4. Non-negativity: with a valid sample stream, every customer record of a finished
  run has \<open>arrival <= service start <= departure\<close>, so its queue time is non-negative
  and its system time is at least its queue time.
\<close>

theorem customer_times_nonneg:
  assumes "valid_rng g" "run_engine arrival_rate service_rate simulation_time g = Inr s"
  shows "\<forall>c \<in> set (customer_stats s).
           0 \<le> c_start c - c_arrival c \<and> c_start c - c_arrival c \<le> c_departure c - c_arrival c"
proof -
  from run_engine_Inr [OF assms(2)] obtain s1 where
    r: "reachable arrival_rate service_rate simulation_time g s1"
    and s: "s = finish_ledger simulation_time s1" by blast
  from reachable_engine_inv [OF r assms(1)] have "trace_inv s1" by (simp add: engine_inv_def)
  then show ?thesis unfolding s by (auto simp: trace_inv_def finish_ledger_def)
qed

theorem customer_times_nonneg_witness:
  "valid_rng [1/5, 3/10, 14/5, 5, 1] \<and>
   (\<exists>s. run_engine 1 1 1 [1/5, 3/10, 14/5, 5, 1] = Inr s \<and>
      (\<forall>c \<in> set (customer_stats s).
         0 \<le> c_start c - c_arrival c \<and> c_start c - c_arrival c \<le> c_departure c - c_arrival c))"
  using customer_times_nonneg [of "[1/5, 3/10, 14/5, 5, 1]" 1 1 1] example_run_engine by simp

text \<open>
  C5. FIFO single server: with a valid sample stream, the customers served and those
  still waiting are in arrival order, and each service starts no earlier than the
  previous one ends (the service intervals do not overlap).
\<close>

theorem fifo_single_server:
  assumes "valid_rng g" "run_engine arrival_rate service_rate simulation_time g = Inr s"
  shows "sorted (map c_arrival (customer_stats s) @ queue s) \<and>
         sorted_wrt (\<lambda>c c'. c_departure c \<le> c_start c') (customer_stats s)"
proof -
  from run_engine_Inr [OF assms(2)] obtain s1 where
    r: "reachable arrival_rate service_rate simulation_time g s1"
    and s: "s = finish_ledger simulation_time s1" by blast
  from reachable_engine_inv [OF r assms(1)] have "trace_inv s1" by (simp add: engine_inv_def)
  then show ?thesis unfolding s by (simp add: trace_inv_def finish_ledger_def)
qed

theorem fifo_single_server_witness:
  "valid_rng [1/5, 3/10, 14/5, 5, 1] \<and>
   (\<exists>s. run_engine 1 1 1 [1/5, 3/10, 14/5, 5, 1] = Inr s \<and> length (customer_stats s) = 2 \<and>
      sorted (map c_arrival (customer_stats s) @ queue s) \<and>
      sorted_wrt (\<lambda>c c'. c_departure c \<le> c_start c') (customer_stats s))"
  using fifo_single_server [of "[1/5, 3/10, 14/5, 5, 1]" 1 1 1] example_run_engine by simp

text \<open>
  C6. Utilization bound. The spec promises \<open>0 <= server_utilization <= 1\<close> always. The
  lower bound fails: when the last event the loop processes is a departure past the
  horizon that starts the next service, the partial busy time \<open>simulation_time -
  server_start_time\<close> is negative and the departed customer's service is not counted
  (\<open>utilization_negative\<close>: utilization \<open>-2\<close>). The upper bound holds: with a valid
  sample stream and a positive horizon, the busy time is at most the horizon and the
  utilization at most 1.
\<close>

theorem utilization_at_most_one:
  assumes "valid_rng g" "0 < simulation_time"
    and "simulate_mm1_queue arrival_rate service_rate simulation_time g = Inr r"
  shows "server_busy_time r \<le> simulation_time \<and> server_utilization r \<le> 1"
proof -
  from assms(3) obtain s where e: "run_engine arrival_rate service_rate simulation_time g = Inr s"
    and red: "reduce_stats simulation_time s = Inr r"
    by (auto simp: simulate_mm1_queue_def)
  from run_engine_Inr [OF e] obtain s1 where
    r: "reachable arrival_rate service_rate simulation_time g s1"
    and s: "s = finish_ledger simulation_time s1" by blast
  have "server_busy_time r =
      partial_busy simulation_time s1 (snd (snd (completed_stats simulation_time (customer_stats s1))))"
    using reduce_stats_Inr(6) [OF red] by (simp add: s)
  also have "\<dots> \<le> simulation_time"
    using busy_time_le_horizon [OF r assms(1)] assms(2) by simp
  finally have b: "server_busy_time r \<le> simulation_time" .
  with assms(2) reduce_stats_Inr(9) [OF red] show ?thesis by simp
qed

theorem utilization_at_most_one_witness:
  "valid_rng [1/5, 3/10, 14/5, 5, 1] \<and> 0 < (1::real) \<and>
   (\<exists>r. simulate_mm1_queue 1 1 1 [1/5, 3/10, 14/5, 5, 1] = Inr r \<and> server_utilization r \<le> 1)"
  using utilization_at_most_one [of "[1/5, 3/10, 14/5, 5, 1]" 1 1 1] example_simulate by simp

theorem utilization_negative:
  "valid_rng [1/5, 3/10, 14/5, 5, 1] \<and>
   (\<exists>r. simulate_mm1_queue 1 1 1 [1/5, 3/10, 14/5, 5, 1] = Inr r \<and> server_utilization r < 0)"
  using example_simulate by simp

text \<open>
  C7. Invalid arrival rate: \<open>1.0/arrival_rate\<close> at line 24 raises
  \<open>ZeroDivisionError\<close> for a zero rate and NumPy raises \<open>ValueError\<close> for a
  negative scale, before any event is processed.
\<close>

theorem invalid_arrival_rate:
  assumes "arrival_rate \<le> 0"
  shows "simulate_mm1_queue arrival_rate service_rate simulation_time g =
           Inl (if arrival_rate = 0 then ZeroDivisionError else ValueError)"
  using assms
  by (simp add: simulate_mm1_queue_def run_engine_def init_state_def exponential_draw_errors)

theorem invalid_arrival_rate_witness:
  "simulate_mm1_queue 0 1 1 [1] = Inl ZeroDivisionError \<and>
   simulate_mm1_queue (-1) 1 1 [1] = Inl ValueError"
  using invalid_arrival_rate [of 0 1 1 "[1]"] invalid_arrival_rate [of "-1" 1 1 "[1]"] by simp

text \<open>
  C8. Zero horizon: the loop does not run and the first division by
  \<open>simulation_time\<close> (line 106) raises \<open>ZeroDivisionError\<close>.
\<close>

theorem zero_horizon_error:
  assumes "0 < arrival_rate" "g \<noteq> []"
  shows "simulate_mm1_queue arrival_rate service_rate 0 g = Inl ZeroDivisionError"
proof -
  from assms(2) obtain u rest where g: "g = u # rest" by (cases g) auto
  with assms(1) show ?thesis
    by (simp add: simulate_mm1_queue_def engine_eval stats_eval)
qed

theorem zero_horizon_error_witness:
  "0 < (1::real) \<and> [1::real] \<noteq> [] \<and> simulate_mm1_queue 1 1 0 [1] = Inl ZeroDivisionError"
  using zero_horizon_error [of 1 "[1]" 1] by simp

text \<open>
  C9. Negative horizon: the code does not validate the horizon. The loop does not run,
  the final update stores the negative horizon as the time at population 0, and the run
  returns a result with every statistic 0 and \<open>state_probabilities = {0: 1.0}\<close>,
  where the spec requires an \<open>InvalidParameter\<close> failure.
\<close>

theorem negative_horizon_accepted:
  assumes "0 < arrival_rate" "g \<noteq> []" "simulation_time < 0"
  shows "simulate_mm1_queue arrival_rate service_rate simulation_time g =
           Inr \<lparr>total_customers = 0, completed_customers = 0, total_system_time = 0,
                total_queue_time = 0, server_busy_time = 0, average_system_time = 0,
                average_queue_time = 0, server_utilization = 0, average_system_length = 0,
                average_queue_length = 0, state_probabilities = [(0, 1)]\<rparr>"
proof -
  from assms(2) obtain u rest where g: "g = u # rest" by (cases g) auto
  with assms(1,3) show ?thesis
    by (simp add: simulate_mm1_queue_def engine_eval stats_eval completed_stats_def
        collect_stats_acc)
qed

theorem negative_horizon_accepted_witness:
  "simulate_mm1_queue 1 1 (-1) [1] =
     Inr \<lparr>total_customers = 0, completed_customers = 0, total_system_time = 0,
          total_queue_time = 0, server_busy_time = 0, average_system_time = 0,
          average_queue_time = 0, server_utilization = 0, average_system_length = 0,
          average_queue_length = 0, state_probabilities = [(0, 1)]\<rparr>"
  using negative_horizon_accepted [of 1 "[1]" "-1" 1] by simp

text \<open>
  C10. Invalid service rate: with a positive horizon the first iteration of the loop is
  always the first arrival, which finds the server idle and draws a service time with
  \<open>scale=1.0/service_rate\<close> (line 44): \<open>ZeroDivisionError\<close> for a zero rate,
  \<open>ValueError\<close> for a negative one.
\<close>

theorem invalid_service_rate:
  assumes "0 < arrival_rate" "0 < simulation_time" "service_rate \<le> 0"
    and "g = u # v # rest"
  shows "simulate_mm1_queue arrival_rate service_rate simulation_time g =
           Inl (if service_rate = 0 then ZeroDivisionError else ValueError)"
  using assms
  by (simp add: simulate_mm1_queue_def engine_eval)

theorem invalid_service_rate_witness:
  "simulate_mm1_queue 1 0 1 [1, 1] = Inl ZeroDivisionError \<and>
   simulate_mm1_queue 1 (-2) 1 [1, 1] = Inl ValueError"
  using invalid_service_rate [of 1 1 0 "[1, 1]" 1 1 "[]"]
    invalid_service_rate [of 1 1 "-2" "[1, 1]" 1 1 "[]"] by simp

text \<open>
  C11. First arrival after the horizon. The spec's zero-arrival edge case expects no
  customer and all time averages 0. The loop condition is checked before the event is
  chosen, so the first arrival is processed even when it lies after the horizon: one
  customer is recorded and starts service, the final update attributes the negative
  time \<open>simulation_time - u/arrival_rate\<close> to population 1, and the busy time,
  the utilization and the average system length come out negative, while the
  probability of population 0 exceeds 1.
\<close>

theorem late_first_arrival:
  assumes "0 < arrival_rate" "0 < service_rate" "0 < simulation_time"
    and "g = u # v # w # rest" "0 \<le> w" "simulation_time < u / arrival_rate"
  shows "simulate_mm1_queue arrival_rate service_rate simulation_time g =
    Inr \<lparr>total_customers = 1, completed_customers = 0, total_system_time = 0,
         total_queue_time = 0, server_busy_time = simulation_time - u / arrival_rate,
         average_system_time = 0, average_queue_time = 0,
         server_utilization = (simulation_time - u / arrival_rate) / simulation_time,
         average_system_length = (simulation_time - u / arrival_rate) / simulation_time,
         average_queue_length = 0,
         state_probabilities = [(0, (u / arrival_rate) / simulation_time),
                                (1, (simulation_time - u / arrival_rate) / simulation_time)]\<rparr>"
proof -
  have "0 \<le> w / service_rate" using assms(2,5) by simp
  with assms(6) have late: "\<not> u / arrival_rate + w / service_rate \<le> simulation_time"
    by linarith
  show ?thesis
    using assms late
    by (simp add: simulate_mm1_queue_def engine_eval stats_eval completed_stats_def
        collect_stats_acc)
qed

theorem late_first_arrival_witness:
  "simulate_mm1_queue 1 1 1 [2, 1, 1] =
    Inr \<lparr>total_customers = 1, completed_customers = 0, total_system_time = 0,
         total_queue_time = 0, server_busy_time = -1, average_system_time = 0,
         average_queue_time = 0, server_utilization = -1, average_system_length = -1,
         average_queue_length = 0, state_probabilities = [(0, 2), (1, -1)]\<rparr>"
  using late_first_arrival [of 1 1 1 "[2, 1, 1]" 2 1 1 "[]"] by simp

text \<open>
  C12. State probabilities. The spec promises every value of \<open>state_probabilities\<close>
  in \<open>[0, 1]\<close>. This fails: the last event processed lies at or after the horizon and
  its whole interval is credited to the population before it, while the final update
  subtracts the overshoot from the population after it, so that entry can be negative
  and others can exceed 1 (\<open>state_probability_out_of_range\<close>: \<open>-1.7\<close> and \<open>2.5\<close>).
  What holds, with a valid sample stream and a positive horizon: every entry except
  the one of the final population \<open>current_state\<close>, the key line 78 updates, is
  non-negative.
\<close>

theorem state_probabilities_nonneg_but_final:
  assumes "valid_rng g" "0 < simulation_time"
    and "run_engine arrival_rate service_rate simulation_time g = Inr s"
    and "reduce_stats simulation_time s = Inr r"
  shows "\<forall>x \<in> set (state_probabilities r). fst x = current_state s \<or> 0 \<le> snd x"
proof -
  from run_engine_Inr [OF assms(3)] obtain s1 where
    r: "reachable arrival_rate service_rate simulation_time g s1"
    and s: "s = finish_ledger simulation_time s1" by blast
  from reachable_engine_inv [OF r assms(1)] have nn: "ledger_nonneg s1"
    by (simp add: engine_inv_def)
  show ?thesis
  proof
    fix x assume x: "x \<in> set (state_probabilities r)"
    from x reduce_stats_Inr(12) [OF assms(4)] obtain n t where
      nt: "(n, t) \<in> set (state_time s)" and xe: "x = (n, t / simulation_time)" by auto
    show "fst x = current_state s \<or> 0 \<le> snd x"
    proof (cases "n = current_state s")
      case False
      with nt s have "(n, t) \<in> set (state_time s1)"
        by (auto simp: finish_ledger_def dest: ledger_add_other)
      with nn have "0 \<le> t" by (auto simp: ledger_nonneg_def)
      with xe assms(2) show ?thesis by simp
    qed (simp add: xe)
  qed
qed

theorem state_probabilities_nonneg_but_final_witness:
  "valid_rng [1/5, 3/10, 14/5, 5, 1] \<and> 0 < (1::real) \<and>
   (\<exists>s r. run_engine 1 1 1 [1/5, 3/10, 14/5, 5, 1] = Inr s \<and> reduce_stats 1 s = Inr r \<and>
      current_state s = 1 \<and> list_all (\<lambda>x. fst x = 1 \<or> 0 \<le> snd x) (state_probabilities r))"
proof -
  obtain s where e: "run_engine 1 1 1 [1/5, 3/10, 14/5, 5, 1] = Inr s" and c: "current_state s = 1"
    using example_run_engine by fastforce
  from e example_simulate obtain r where red: "reduce_stats 1 s = Inr r"
    by (auto simp: simulate_mm1_queue_def)
  have v: "valid_rng [1/5, 3/10, 14/5, 5, 1]" by simp
  from state_probabilities_nonneg_but_final [OF v _ e red] c
  have "list_all (\<lambda>x. fst x = 1 \<or> 0 \<le> snd x) (state_probabilities r)"
    by (simp add: list_all_iff)
  with v e red c show ?thesis by auto
qed

theorem state_probability_out_of_range:
  "valid_rng [1/5, 3/10, 14/5, 5, 1] \<and>
   (\<exists>r. simulate_mm1_queue 1 1 1 [1/5, 3/10, 14/5, 5, 1] = Inr r \<and>
      (1, - (17/10)) \<in> set (state_probabilities r) \<and> (2, 5/2) \<in> set (state_probabilities r))"
  using example_simulate by simp

text \<open>
  C14. Queue length against system length: in every result, the time-averaged queue
  length is the time-averaged system length minus the probability that the server is
  busy, \<open>L_q = L - (1 - p_0)\<close>, where \<open>p_0\<close> is the probability of population 0.
\<close>

theorem queue_length_identity:
  assumes "simulate_mm1_queue arrival_rate service_rate simulation_time g = Inr r"
  shows "average_queue_length r = average_system_length r - (1 -
           (case map_of (state_probabilities r) 0 of None \<Rightarrow> 0 | Some p \<Rightarrow> p))"
proof -
  from assms obtain s where e: "run_engine arrival_rate service_rate simulation_time g = Inr s"
    and red: "reduce_stats simulation_time s = Inr r"
    by (auto simp: simulate_mm1_queue_def)
  from run_engine_Inr [OF e] obtain s1 where
    r: "reachable arrival_rate service_rate simulation_time g s1"
    and s: "s = finish_ledger simulation_time s1" by blast
  from reachable_count_inv [OF r] finish_ledger_inv
  have l: "ledger_ok (state_time s)" "ledger_total (state_time s) = simulation_time"
    "\<forall>n \<in> fst ` set (state_time s). 0 \<le> n"
    unfolding s by blast+
  have h: "simulation_time \<noteq> 0" by (rule reduce_stats_Inr(1) [OF red])
  have "average_queue_length r =
      (time_weighted real_of_int (state_time s) - simulation_time + ledger_get (state_time s) 0) /
      simulation_time"
    using reduce_stats_Inr(11) [OF red] queue_weighted_eq [OF l(3)] l(1,2)
    by (simp add: ledger_ok_def)
  also have "\<dots> = average_system_length r - (1 - ledger_get (state_time s) 0 / simulation_time)"
    using reduce_stats_Inr(10) [OF red] h by (simp add: diff_divide_distrib add_divide_distrib)
  finally show ?thesis
    using reduce_stats_Inr(12) [OF red] by (simp add: probability_of_zero)
qed

theorem queue_length_identity_witness:
  "\<exists>r. simulate_mm1_queue 1 1 1 [1/5, 3/10, 14/5, 5, 1] = Inr r \<and>
       average_queue_length r = average_system_length r - (1 -
         (case map_of (state_probabilities r) 0 of None \<Rightarrow> 0 | Some p \<Rightarrow> p))"
  using queue_length_identity [of 1 1 1 "[1/5, 3/10, 14/5, 5, 1]"] example_simulate by simp

text \<open>
  C15. One event at a time: with a valid sample stream, each step of the loop from a
  reachable state moves the clock forward (never backward) and is one event: either
  the next arrival (taken when it is not after the pending departure), which moves the
  clock to it, adds one to the population and one customer to the line or the records;
  or the pending departure (strictly before the next arrival), which moves the clock to
  it, takes one from the population and keeps the number of customers recorded or
  waiting.
\<close>

theorem step_moves_by_one:
  assumes "reachable arrival_rate service_rate simulation_time g s" "valid_rng g"
    and "sim_step arrival_rate service_rate s = Inr s'"
  shows "current_time s \<le> current_time s' \<and>
         ((Fin (next_arrival_time s) \<le> next_departure_time s \<and>
           current_time s' = next_arrival_time s \<and> current_state s' = current_state s + 1 \<and>
           length (queue s') + length (customer_stats s') =
             Suc (length (queue s) + length (customer_stats s))) \<or>
          (next_departure_time s = Fin (current_time s') \<and>
           current_time s' < next_arrival_time s \<and> current_state s' = current_state s - 1 \<and>
           length (queue s') + length (customer_stats s') =
             length (queue s) + length (customer_stats s)))"
proof -
  from reachable_engine_inv [OF assms(1,2)] have c: "clock_inv s" by (simp add: engine_inv_def)
  from assms(3) show ?thesis
  proof (cases rule: sim_step_cases)
    case (depart_next d a rest v g)
    with c show ?thesis by (simp add: clock_inv_def)
  qed (use c in \<open>auto simp: clock_inv_def\<close>)
qed

theorem step_moves_by_one_witness:
  "valid_rng [1/5, 3/10, 14/5, 5, 1] \<and>
   (\<exists>s s'. reachable 1 1 1 [1/5, 3/10, 14/5, 5, 1] s \<and> sim_step 1 1 s = Inr s' \<and>
      current_time s \<le> current_time s' \<and> next_departure_time s = Fin (current_time s') \<and>
      current_state s' = current_state s - 1)"
proof -
  let ?s2 = "\<lparr>current_time = 1/2, server_busy = True,
     server_start_time = 1/5, next_departure_time = Fin 3, queue = [1/2],
     customer_stats = [\<lparr>c_arrival = 1/5, c_start = 1/5, c_departure = 3\<rparr>],
     last_event_time = 1/2, state_time = [(0, 1/5), (1, 3/10)], current_state = 2,
     next_arrival_time = 11/2, rng = [1]\<rparr> :: sim_state"
  have "\<exists>s'. sim_step 1 1 ?s2 = Inr s'" by (simp add: engine_eval)
  then obtain s' where st: "sim_step 1 1 ?s2 = Inr s'" by blast
  have v: "valid_rng [1/5, 3/10, 14/5, 5, 1]" by simp
  from st have "current_time s' = 3" by (auto simp: engine_eval)
  with step_moves_by_one [OF example_reachable v st]
  have "current_time ?s2 \<le> current_time s' \<and> next_departure_time ?s2 = Fin (current_time s') \<and>
      current_state s' = current_state ?s2 - 1"
    by auto
  with v example_reachable st show ?thesis by blast
qed

text \<open>
  C16. The run completes: with positive rates and horizon, and a sample stream whose
  every variate gives an interarrival time of at least \<open>gap > 0\<close>, a stream of
  \<open>2 * ceiling (simulation_time / gap) + 3\<close> samples is enough: the loop ends and
  \<open>simulate_mm1_queue\<close> returns a result, never an exception.
\<close>

theorem run_completes:
  assumes "0 < arrival_rate" "0 < service_rate" "0 < simulation_time" "0 < gap"
    and "\<forall>u \<in> set g. gap \<le> u / arrival_rate"
    and "2 * nat \<lceil>simulation_time / gap\<rceil> + 3 \<le> length g"
  shows "\<exists>r. simulate_mm1_queue arrival_rate service_rate simulation_time g = Inr r"
proof -
  have v: "valid_rng g"
  proof -
    have "0 \<le> u" if "u \<in> set g" for u
    proof -
      from that assms(5) have "gap \<le> u / arrival_rate" by blast
      with assms(4) have "0 < u / arrival_rate" by linarith
      with assms(1) show ?thesis by (simp add: zero_less_divide_iff)
    qed
    then show ?thesis by (simp add: valid_rng_def list_all_iff)
  qed
  from assms(6) obtain u rest where g: "g = u # rest" by (cases g) auto
  with assms(1) obtain s0 where s0: "init_state arrival_rate g = Inr s0"
    by (simp add: init_state_def exponential_draw_def)
  then have "reachable arrival_rate service_rate simulation_time g s0" by (rule reachable.start)
  from sim_loop_completes [OF this v assms(1,2,4,5,6)] obtain s where
    "sim_loop arrival_rate service_rate simulation_time s0 = Inr s" by blast
  with s0 have "run_engine arrival_rate service_rate simulation_time g =
      Inr (finish_ledger simulation_time s)"
    by (simp add: run_engine_def)
  moreover from assms(3) obtain r where
    "reduce_stats simulation_time (finish_ledger simulation_time s) = Inr r"
    using reduce_stats_succeeds [of simulation_time "finish_ledger simulation_time s"] by auto
  ultimately show ?thesis by (auto simp: simulate_mm1_queue_def)
qed

theorem run_completes_witness:
  "\<exists>r. simulate_mm1_queue 1 1 1 (replicate 23 (1/10)) = Inr r"
proof -
  have "\<forall>u \<in> set (replicate 23 (1/10 :: real)). 1/10 \<le> u / 1" by simp
  moreover have "2 * nat \<lceil>(1::real) / (1/10)\<rceil> + 3 \<le> length (replicate 23 (1/10 :: real))"
    by simp
  ultimately show ?thesis
    using run_completes [of 1 1 1 "1/10" "replicate 23 (1/10)"] by simp
qed

theorem fifo_refinement_witness:
  "valid_rng [1/5, 3/10, 14/5, 5, 1] \<and>
   (\<exists>s s'. reachable 1 1 1 [1/5, 3/10, 14/5, 5, 1] s \<and> sim_step 1 1 s = Inr s' \<and>
      in_system s = [1/5, 1/2] \<and> in_system s' = tl (in_system s))"
proof -
  let ?s2 = "\<lparr>current_time = 1/2, server_busy = True,
     server_start_time = 1/5, next_departure_time = Fin 3, queue = [1/2],
     customer_stats = [\<lparr>c_arrival = 1/5, c_start = 1/5, c_departure = 3\<rparr>],
     last_event_time = 1/2, state_time = [(0, 1/5), (1, 3/10)], current_state = 2,
     next_arrival_time = 11/2, rng = [1]\<rparr> :: sim_state"
  have v: "valid_rng [1/5, 3/10, 14/5, 5, 1]" by simp
  have "\<exists>s'. sim_step 1 1 ?s2 = Inr s'" by (simp add: engine_eval)
  then obtain s' where st: "sim_step 1 1 ?s2 = Inr s'" by blast
  have i2: "in_system ?s2 = [1/5, 1/2]" by (simp add: in_system_def)
  from st have "in_system s' \<noteq> in_system ?s2 @ [next_arrival_time ?s2]"
    by (auto simp: engine_eval in_system_def)
  with Engine_Invariants.fifo_refinement [OF example_reachable v st]
  have "in_system s' = tl (in_system ?s2)" by blast
  with v example_reachable st i2 show ?thesis by blast
qed

theorem little_law_sample_path_witness:
  "valid_rng [1/5, 3/10, 14/5, 5, 1] \<and>
   (\<exists>s. reachable 1 1 1 [1/5, 3/10, 14/5, 5, 1] s \<and> length (queue s) = 1 \<and>
      time_weighted real_of_int (state_time s) = sojourn_total s)"
  using example_reachable Littles_Law.little_law_sample_path [OF example_reachable] by auto

text \<open>
  C18. Well-formed results: with a valid sample stream, every result of the simulator
  satisfies \<open>result_wf\<close>: its population dict has distinct non-negative keys and the
  key 0, no more customers are completed than arrived, and the queue times, in total
  and on average, are non-negative and at most the system times.
\<close>

theorem result_well_formed:
  assumes "valid_rng g" "simulate_mm1_queue arrival_rate service_rate simulation_time g = Inr r"
  shows "result_wf r"
proof -
  from assms(2) obtain s where e: "run_engine arrival_rate service_rate simulation_time g = Inr s"
    and red: "reduce_stats simulation_time s = Inr r"
    by (auto simp: simulate_mm1_queue_def)
  from run_engine_Inr [OF e] obtain s1 where
    r: "reachable arrival_rate service_rate simulation_time g s1"
    and s: "s = finish_ledger simulation_time s1" by blast
  from reachable_engine_inv [OF r assms(1)] have "trace_inv s1" by (simp add: engine_inv_def)
  then have "\<forall>c \<in> set (customer_stats s). 0 \<le> c_start c - c_arrival c \<and>
      c_start c - c_arrival c \<le> c_departure c - c_arrival c"
    unfolding s by (auto simp: trace_inv_def)
  from completed_times_ordered [OF this, of simulation_time] simulate_keys [OF assms(2)]
  show ?thesis
    by (simp add: result_wf_def reduce_stats_Inr(4,5,7,8) [OF red] list_all_iff split_def)
qed

theorem result_well_formed_witness:
  "valid_rng [1/5, 1/2, 1/4, 2, 1/2, 3, 1] \<and>
   (\<exists>r. simulate_mm1_queue 1 1 2 [1/5, 1/2, 1/4, 2, 1/2, 3, 1] = Inr r \<and>
      result_wf r \<and> completed_customers r = 2)"
  using result_well_formed [of "[1/5, 1/2, 1/4, 2, 1/2, 3, 1]" 1 1 2] example_simulate_served
  by simp

text \<open>
  C25. Little's law for the reported length: with a valid sample stream, the reported
  \<open>average_system_length\<close> times the horizon is the total time the customers spent in
  the system up to the last processed event, minus the population at that event times
  the overshoot of the event past the horizon. The sample-path law \<open>L T = sum W\<close>
  therefore holds for the result only when the last event falls exactly on the horizon.
\<close>

theorem system_length_sample_path:
  assumes "valid_rng g" "simulate_mm1_queue arrival_rate service_rate simulation_time g = Inr r"
  shows "\<exists>s. reachable arrival_rate service_rate simulation_time g s \<and>
             simulation_time \<le> current_time s \<and>
             average_system_length r * simulation_time =
               sojourn_total s - real_of_int (current_state s) * (current_time s - simulation_time)"
proof -
  from assms(2) obtain s where e: "run_engine arrival_rate service_rate simulation_time g = Inr s"
    and red: "reduce_stats simulation_time s = Inr r"
    by (auto simp: simulate_mm1_queue_def)
  from run_engine_Inr [OF e] obtain s1 where
    r: "reachable arrival_rate service_rate simulation_time g s1"
    and past: "simulation_time \<le> current_time s1"
    and s: "s = finish_ledger simulation_time s1" by blast
  from reachable_engine_inv [OF r assms(1)]
  have ok: "ledger_ok (state_time s1)" and t: "last_event_time s1 = current_time s1"
    by (simp_all add: engine_inv_def ledger_inv_def clock_inv_def)
  from reachable_little_inv [OF r assms(1)]
  have "time_weighted real_of_int (state_time s1) = sojourn_total s1" by (simp add: little_inv_def)
  with ok t have "time_weighted real_of_int (state_time s) =
      sojourn_total s1 - real_of_int (current_state s1) * (current_time s1 - simulation_time)"
    by (simp add: s finish_ledger_def ledger_simps algebra_simps)
  with reduce_stats_Inr(1,10) [OF red] r past show ?thesis by auto
qed

theorem system_length_sample_path_witness:
  "valid_rng [1/5, 3/10, 14/5, 5, 1] \<and>
   (\<exists>s. reachable 1 1 1 [1/5, 3/10, 14/5, 5, 1] s \<and> 1 \<le> current_time s \<and>
      33/10 = sojourn_total s - real_of_int (current_state s) * (current_time s - 1))"
  using system_length_sample_path [of "[1/5, 3/10, 14/5, 5, 1]" 1 1 1] example_simulate by simp

end
